theory Spec2Isabelle
  imports Complex_Main
begin

section \<open>Data model\<close>

text \<open>
  The embedding follows the ingestion module (the file that exports
  \<^verbatim>\<open>processDocumentWithPaperless\<close> with \<^verbatim>\<open>uuid: number | null\<close>). The older copy of
  the workflow that the repository keeps beside the server is embedded too, under names
  ending in \<open>_legacy\<close>.
  JavaScript strings are modelled as \<^typ>\<open>string\<close>; the characters the code inspects
  (\<^verbatim>\<open>#\<close>, the decimal digits, the duplicate phrase) are ASCII, so the byte view and
  the code-unit view agree on every test the code makes.
  The records of a task list have the field types that \<^verbatim>\<open>interface TaskResponse\<close>
  declares; the cast of the parsed body is unchecked, and of the bodies that do not have
  the declared type the model has those whose list holds \<^verbatim>\<open>null\<close> elements.
  Console output is not modelled.
\<close>

text \<open>A thrown JavaScript value.\<close>

datatype js_error = Error string | TypeError string

text \<open>What \<^verbatim>\<open>response.json()\<close> can yield when the result is typed \<^verbatim>\<open>any\<close>.\<close>

datatype json =
    JNull
  | JBool bool
  | JNum rat
  | JStr string
  | JArr "json list"
  | JObj "(string \<times> json) list"

text \<open>
  The numbers that identify documents: integers, and the value \<^verbatim>\<open>Infinity\<close> that
  \<^verbatim>\<open>parseInt\<close> yields on a digit run beyond the range of a double.
\<close>

datatype js_number = Finite int | Infinity

text \<open>\<^verbatim>\<open>interface TaskResponse\<close>\<close>

record TaskResponse =
  id_num :: int
  task_id :: string
  task_file_name :: string
  date_created :: string
  date_done :: "string option"
  type_name :: string
  status :: string
  result :: "string option"
  acknowledged :: bool
  related_document :: "string option"

text \<open>
  \<^verbatim>\<open>interface PaperlessArchiveResult\<close>. The type of \<open>uuid\<close> is
  \<^verbatim>\<open>number | null\<close> in the ingestion module; the older copy puts the upload's answer
  there.
\<close>

record 'u PaperlessArchiveResult =
  new_entry :: bool
  uuid :: 'u
  content :: string

type_synonym buffer = "nat list"

text \<open>
  A \<^verbatim>\<open>fetch\<close> response: the HTTP status and what the two body readers do when
  awaited (\<open>Inl\<close> is a rejection). The type parameter is the type of the parsed JSON body
  at the call site.
\<close>

record 'j response =
  status_code :: nat
  statusText :: string
  arrayBuffer :: "js_error + buffer"
  json_body :: "js_error + 'j"

text \<open>\<^verbatim>\<open>response.ok\<close>: the status is in the range 200..299.\<close>

definition ok :: "('j, 'z) response_scheme \<Rightarrow> bool" where
  "ok r = (200 \<le> status_code r \<and> status_code r < 300)"

text \<open>
  Paths. \<open>Join d n\<close> is \<^verbatim>\<open>join(d, n)\<close>, \<open>JoinDoc d k\<close> is
  \<^verbatim>\<open>join(d, `${k}.pdf`)\<close> for a number \<open>k\<close>, and \<open>File n\<close> is the bare name \<open>n\<close>.
\<close>

datatype path = Join string string | JoinDoc string js_number | File string

text \<open>
  The parsed body of a task-list response: \<^verbatim>\<open>null\<close> (\<open>None\<close>) or a list whose elements
  are records or \<^verbatim>\<open>null\<close>.
\<close>

type_synonym task_list = "TaskResponse option list option"

text \<open>
  The external collaborators: file system, transport and text extractor. Each field says
  what the call does on given arguments; the task endpoint also gets the number of
  status queries already answered in this invocation, so that successive polls can differ.
\<close>

record env =
  existsSync :: "string \<Rightarrow> bool"
  mkdirSync :: "string \<Rightarrow> js_error option"
  writeFile :: "path \<Rightarrow> buffer \<Rightarrow> js_error option"
  bunFile_arrayBuffer :: "path \<Rightarrow> js_error + buffer"
  fetch_source :: "string \<Rightarrow> js_error + unit response"
  fetch_post_document :: "path \<Rightarrow> string \<Rightarrow> js_error + json response"
  fetch_tasks :: "json \<Rightarrow> string \<Rightarrow> nat \<Rightarrow> js_error + task_list response"
  fetch_download :: "js_number \<Rightarrow> bool \<Rightarrow> string \<Rightarrow> js_error + unit response"
  readPdfText :: "path \<Rightarrow> js_error + string"

text \<open>
  The older copy downloads by the task's string identifier, with a token of its own, and
  stages the download under the system's temporary directory.
\<close>

record legacy_env = env +
  fetch_download_legacy :: "string \<Rightarrow> bool \<Rightarrow> js_error + unit response"
  tmpdir :: string

text \<open>The calls made on the collaborators, in order.\<close>

datatype event =
    ExistsSync string
  | MkdirSync string
  | WriteFile path buffer
  | ReadFile path
  | FetchSource string
  | FetchPostDocument path string
  | FetchTasks json string
  | FetchDownload js_number bool string
  | FetchDownloadLegacy string bool
  | ReadPdfText path
  | Sleep nat

definition is_poll :: "event \<Rightarrow> bool" where
  "is_poll e = (case e of FetchTasks _ _ \<Rightarrow> True | _ \<Rightarrow> False)"

definition is_download_or_extract :: "event \<Rightarrow> bool" where
  "is_download_or_extract e =
     (case e of FetchDownload _ _ _ \<Rightarrow> True | FetchDownloadLegacy _ _ \<Rightarrow> True
      | ReadPdfText _ \<Rightarrow> True | _ \<Rightarrow> False)"

definition IGNORE_EXISTING_FILE :: bool where
  "IGNORE_EXISTING_FILE = True"

definition REPROCESS_EXISTING_DOCUMENTS :: bool where
  "REPROCESS_EXISTING_DOCUMENTS = True"

section \<open>JavaScript primitives used by the module\<close>

text \<open>\<^verbatim>\<open>!x\<close> is \<open>\<not> truthy x\<close>.\<close>

fun truthy :: "json \<Rightarrow> bool" where
  "truthy JNull = False"
| "truthy (JBool b) = b"
| "truthy (JNum x) = (x \<noteq> 0)"
| "truthy (JStr s) = (s \<noteq> [])"
| "truthy (JArr xs) = True"
| "truthy (JObj kvs) = True"

text \<open>\<^verbatim>\<open>if (n)\<close> for a number: zero is falsy, \<^verbatim>\<open>Infinity\<close> is truthy.\<close>

fun number_truthy :: "js_number \<Rightarrow> bool" where
  "number_truthy (Finite n) = (n \<noteq> 0)"
| "number_truthy Infinity = True"

text \<open>
  The string conversion of an array or object, and of an element of an array as
  \<^verbatim>\<open>Array.prototype.join\<close> performs it, classified by what the tests of the module can
  see: it throws, it is the empty string, or it is a non-empty string.
  A parsed object converts to \<^verbatim>\<open>[object Object]\<close>, unless it has an own
  \<^verbatim>\<open>toString\<close> key: the value there is not callable, the inherited
  \<^verbatim>\<open>valueOf\<close> returns the object, and the conversion throws a \<^verbatim>\<open>TypeError\<close>.
  An array converts to its elements joined by commas, where \<^verbatim>\<open>null\<close> elements give
  the empty string.
\<close>

datatype conversion = Throws | EmptyString | NonEmptyString

definition join_conversions :: "conversion list \<Rightarrow> conversion" where
  "join_conversions cs =
     (if Throws \<in> set cs then Throws
      else case cs of [] \<Rightarrow> EmptyString | [c] \<Rightarrow> c | _ \<Rightarrow> NonEmptyString)"

fun string_conversion :: "json \<Rightarrow> conversion" where
  "string_conversion JNull = EmptyString"
| "string_conversion (JBool b) = NonEmptyString"
| "string_conversion (JNum x) = NonEmptyString"
| "string_conversion (JStr s) = (if s = [] then EmptyString else NonEmptyString)"
| "string_conversion (JArr xs) = join_conversions (map string_conversion xs)"
| "string_conversion (JObj kvs) =
     (if ''toString'' \<in> set (map fst kvs) then Throws else NonEmptyString)"

text \<open>
  \<^verbatim>\<open>x == ""\<close> (loose equality with the empty string). An array or object is first
  converted to a primitive, which is its string conversion; that can throw.
\<close>

fun loose_eq_empty :: "json \<Rightarrow> js_error + bool" where
  "loose_eq_empty JNull = Inr False"
| "loose_eq_empty (JBool b) = Inr (\<not> b)"
| "loose_eq_empty (JNum x) = Inr (x = 0)"
| "loose_eq_empty (JStr s) = Inr (s = [])"
| "loose_eq_empty (JArr xs) =
     (case string_conversion (JArr xs) of
        Throws \<Rightarrow> Inl (TypeError ''Cannot convert object to primitive value'')
      | EmptyString \<Rightarrow> Inr True
      | NonEmptyString \<Rightarrow> Inr False)"
| "loose_eq_empty (JObj kvs) =
     (case string_conversion (JObj kvs) of
        Throws \<Rightarrow> Inl (TypeError ''Cannot convert object to primitive value'')
      | EmptyString \<Rightarrow> Inr False
      | NonEmptyString \<Rightarrow> Inr False)"

text \<open>\<^verbatim>\<open>s.includes(t)\<close>\<close>

fun startsWith :: "string \<Rightarrow> string \<Rightarrow> bool" where
  "startsWith s [] = True"
| "startsWith [] (d # t) = False"
| "startsWith (c # s) (d # t) = (c = d \<and> startsWith s t)"

fun includes_str :: "string \<Rightarrow> string \<Rightarrow> bool" where
  "includes_str [] t = (t = [])"
| "includes_str (c # s) t = (startsWith (c # s) t \<or> includes_str s t)"

text \<open>\<^verbatim>\<open>s.lastIndexOf(c)\<close>: the search runs backwards from the end; -1 when absent.\<close>

fun lastIndexOf_below :: "string \<Rightarrow> char \<Rightarrow> nat \<Rightarrow> int" where
  "lastIndexOf_below s c 0 = - 1"
| "lastIndexOf_below s c (Suc k) = (if s ! k = c then int k else lastIndexOf_below s c k)"

definition lastIndexOf :: "string \<Rightarrow> char \<Rightarrow> int" where
  "lastIndexOf s c = lastIndexOf_below s c (length s)"

text \<open>\<^verbatim>\<open>s.slice(start)\<close>: a negative start counts from the end.\<close>

definition slice :: "string \<Rightarrow> int \<Rightarrow> string" where
  "slice s start =
     (if start < 0 then drop (nat (int (length s) + start)) s else drop (nat start) s)"

definition isDigit :: "char \<Rightarrow> bool" where
  "isDigit c = (48 \<le> (of_char c :: nat) \<and> (of_char c :: nat) \<le> 57)"

text \<open>\<^verbatim>\<open>s.match(/(\d+)/)\<close>: the first, maximal run of digits, when there is one.\<close>

definition match_digits :: "string \<Rightarrow> string option" where
  "match_digits s =
     (let m = takeWhile isDigit (dropWhile (\<lambda>c. \<not> isDigit c) s)
      in if m = [] then None else Some m)"

text \<open>
  The Number value of a non-negative integer: the integer itself below \<open>2 ^ 53\<close>, and
  otherwise the integer rounded to 53 significant bits, to the nearest and on a tie to
  the even one; \<^verbatim>\<open>Infinity\<close> when the rounded value reaches \<open>2 ^ 1024\<close>.
\<close>

function bit_length :: "int \<Rightarrow> nat" where
  "bit_length n = (if n \<le> 0 then 0 else Suc (bit_length (n div 2)))"
  by pat_completeness auto
termination
  by (relation "measure nat") auto

definition to_double :: "int \<Rightarrow> js_number" where
  "to_double v =
     (if v < 2 ^ 53 then Finite v
      else
        let e = bit_length v - 53;
            q = v div 2 ^ e;
            r = v mod 2 ^ e;
            half = 2 ^ (e - 1);
            q' = (if half < r \<or> (r = half \<and> odd q) then q + 1 else q)
        in if 2 ^ 1024 \<le> q' * 2 ^ e then Infinity else Finite (q' * 2 ^ e))"

text \<open>
  \<^verbatim>\<open>parseInt(m, 10)\<close> on a run of digits: the integer the digits denote, accumulated
  from the left, as a Number. (For more than 20 significant digits the language standard
  lets an implementation replace the further digits by zeros before rounding; the model
  rounds the exact integer.)
\<close>

definition parseInt :: "string \<Rightarrow> js_number" where
  "parseInt m = to_double (foldl (\<lambda>acc c. 10 * acc + (int (of_char c) - 48)) 0 m)"

section \<open>Duplicate resolver\<close>

definition extractDuplicateId :: "string \<Rightarrow> js_number option" where
  "extractDuplicateId input =
     (let hashIndex = lastIndexOf input (CHR ''#'') in
      if hashIndex = - 1 then None
      else
        let substring = slice input (hashIndex + 1) in
        case match_digits substring of
          Some m \<Rightarrow> Some (parseInt m)
        | None \<Rightarrow> None)"

section \<open>Task poller\<close>

text \<open>
  \<^verbatim>\<open>pollPaperlessTaskStatus\<close>. The \<^verbatim>\<open>while (true)\<close> loop is the recursion; \<open>n\<close>
  counts the status queries already answered and \<open>tr\<close> is the trace of collaborator
  calls so far. The function is partial: \<open>None\<close> is a loop that never ends. A finished
  poll yields the trace and either the returned record (\<open>Inr\<close>, where \<open>None\<close> is
  \<^verbatim>\<open>null\<close>) or the exception that leaves the function (\<open>Inl\<close>): reading a property of
  a first element that is \<^verbatim>\<open>null\<close> throws outside every \<^verbatim>\<open>try\<close>.
\<close>

partial_function (option) pollPaperlessTaskStatus ::
  "env \<Rightarrow> json \<Rightarrow> string \<Rightarrow> nat \<Rightarrow> event list \<Rightarrow>
     (event list \<times> (js_error + TaskResponse option)) option"
where
  "pollPaperlessTaskStatus e taskUuid token n tr =
     (let tr1 = tr @ [FetchTasks taskUuid token] in
      case fetch_tasks e taskUuid token n of
        Inl err \<Rightarrow> Some (tr1, Inr None)
      | Inr response \<Rightarrow>
          if \<not> ok response then Some (tr1, Inr None)
          else if status_code response = 200 then
            (case json_body response of
               Inl err \<Rightarrow> Some (tr1, Inr None)
             | Inr None \<Rightarrow> Some (tr1, Inr None)
             | Inr (Some []) \<Rightarrow> Some (tr1, Inr None)
             | Inr (Some (None # others)) \<Rightarrow>
                 Some (tr1, Inl (TypeError ''null is not an object''))
             | Inr (Some (Some task_response # others)) \<Rightarrow>
                 let task_status = status task_response;
                     tr2 = (if task_status = ''PENDING'' then tr1 @ [Sleep 5000] else tr1)
                 in
                   if task_status \<noteq> '''' \<and> task_status \<noteq> ''PENDING''
                   then Some (tr2, Inr (Some task_response))
                   else pollPaperlessTaskStatus e taskUuid token (Suc n) tr2)
          else Some (tr1, Inr None))"

section \<open>Upload\<close>

text \<open>
  \<^verbatim>\<open>createFileObject\<close>: reads the file back; every error is caught and gives
  \<^verbatim>\<open>null\<close>.
\<close>

definition createFileObject :: "'a env_scheme \<Rightarrow> path \<Rightarrow> event list \<times> buffer option" where
  "createFileObject e filePath =
     ([ReadFile filePath],
      case bunFile_arrayBuffer e filePath of
        Inl err \<Rightarrow> None
      | Inr fileContent \<Rightarrow> Some fileContent)"

text \<open>
  \<^verbatim>\<open>uploadDocument\<close>: posts the file and returns the parsed response body, whatever
  it is; the response's status is not inspected. A rejected \<^verbatim>\<open>fetch\<close> or
  \<^verbatim>\<open>response.json()\<close> is caught and gives \<^verbatim>\<open>null\<close>.
\<close>

definition uploadDocument :: "'a env_scheme \<Rightarrow> path \<Rightarrow> string \<Rightarrow> event list \<times> json" where
  "uploadDocument e fileName token =
     (case createFileObject e fileName of
        (tr1, None) \<Rightarrow> (tr1, JNull)
      | (tr1, Some file) \<Rightarrow>
          (let tr2 = tr1 @ [FetchPostDocument fileName token] in
           case fetch_post_document e fileName token of
             Inl err \<Rightarrow> (tr2, JNull)
           | Inr response \<Rightarrow>
               (case json_body response of
                  Inl err \<Rightarrow> (tr2, JNull)
                | Inr responseData \<Rightarrow> (tr2, responseData))))"

text \<open>
  \<^verbatim>\<open>processAndIngestPDF\<close>. The directory creation is outside every
  \<^verbatim>\<open>try\<close>, so a throwing \<^verbatim>\<open>mkdirSync\<close> rejects the returned promise
  (\<open>Inl\<close>).
\<close>

definition processAndIngestPDF ::
  "env \<Rightarrow> string \<Rightarrow> string \<Rightarrow> string \<Rightarrow> event list \<times> (js_error + json)"
where
  "processAndIngestPDF e pdfUrl fileName token =
     (let file_dir = ''originals'';
          exists = existsSync e file_dir;
          tr1 = (if exists then [ExistsSync file_dir]
                 else [ExistsSync file_dir, MkdirSync file_dir])
      in
      case (if exists then None else mkdirSync e file_dir) of
        Some err \<Rightarrow> (tr1, Inl err)
      | None \<Rightarrow>
          (let file_path = Join file_dir fileName;
               tr2 = tr1 @ [FetchSource pdfUrl]
           in
           case fetch_source e pdfUrl of
             Inl err \<Rightarrow> (tr2, Inr JNull)
           | Inr pdfResponse \<Rightarrow>
               if \<not> ok pdfResponse then (tr2, Inr JNull)
               else
                 (case arrayBuffer pdfResponse of
                    Inl err \<Rightarrow> (tr2, Inr JNull)
                  | Inr pdfBuffer \<Rightarrow>
                      (let tr3 = tr2 @ [WriteFile file_path pdfBuffer] in
                       case writeFile e file_path pdfBuffer of
                         Some err \<Rightarrow> (tr3, Inr JNull)
                       | None \<Rightarrow>
                           (case uploadDocument e file_path token of
                              (tr4, data) \<Rightarrow> (tr3 @ tr4, Inr data))))))"

section \<open>Archival download\<close>

text \<open>
  \<^verbatim>\<open>downloadPaperlessDocument\<close>. The directory creation and the read of the body
  are outside the function's own \<^verbatim>\<open>try\<close> blocks (\<open>Inl\<close>); the caller catches.
\<close>

definition downloadPaperlessDocument ::
  "env \<Rightarrow> js_number \<Rightarrow> bool \<Rightarrow> string \<Rightarrow> event list \<times> (js_error + path option)"
where
  "downloadPaperlessDocument e documentId original token =
     (let file_dir = ''pdf-a'';
          exists = existsSync e file_dir;
          tr1 = (if exists then [ExistsSync file_dir]
                 else [ExistsSync file_dir, MkdirSync file_dir])
      in
      case (if exists then None else mkdirSync e file_dir) of
        Some err \<Rightarrow> (tr1, Inl err)
      | None \<Rightarrow>
          (let file_path = JoinDoc file_dir documentId;
               tr2 = tr1 @ [FetchDownload documentId original token]
           in
           case fetch_download e documentId original token of
             Inl err \<Rightarrow> (tr2, Inr None)
           | Inr response \<Rightarrow>
               if \<not> ok response then (tr2, Inr None)
               else
                 (case arrayBuffer response of
                    Inl err \<Rightarrow> (tr2, Inl err)
                  | Inr document_buffer \<Rightarrow>
                      (let tr3 = tr2 @ [WriteFile file_path document_buffer] in
                       case writeFile e file_path document_buffer of
                         Some err \<Rightarrow> (tr3, Inr None)
                       | None \<Rightarrow> (tr3, Inr (Some file_path))))))"

section \<open>Ingestion workflow\<close>

definition failure :: "'u \<Rightarrow> 'u PaperlessArchiveResult" where
  "failure document_id = \<lparr>new_entry = False, uuid = document_id, content = ''''\<rparr>"

text \<open>
  The tail of \<^verbatim>\<open>processDocumentWithPaperless\<close>, from the download of the archival
  copy of \<open>document_id\<close> to the end. \<open>tr\<close> is the trace so far.
\<close>

definition downloadAndExtract ::
  "env \<Rightarrow> string \<Rightarrow> js_number \<Rightarrow> event list \<Rightarrow>
     event list \<times> js_number option PaperlessArchiveResult"
where
  "downloadAndExtract e token document_id tr =
     (case downloadPaperlessDocument e document_id False token of
        (tr1, Inl err) \<Rightarrow> (tr @ tr1, failure (Some document_id))
      | (tr1, Inr None) \<Rightarrow> (tr @ tr1, failure (Some document_id))
      | (tr1, Inr (Some document_filename)) \<Rightarrow>
          (let tr2 = tr @ tr1 @ [ReadPdfText document_filename] in
           case readPdfText e document_filename of
             Inl err \<Rightarrow> (tr2, failure (Some document_id))
           | Inr document_text \<Rightarrow>
               if document_text = '''' then (tr2, failure (Some document_id))
               else (tr2, \<lparr>new_entry = True, uuid = Some document_id,
                            content = document_text\<rparr>)))"

text \<open>
  The middle of \<^verbatim>\<open>processDocumentWithPaperless\<close>: the branch on the polled record
  \<open>task_info\<close>, which is not \<^verbatim>\<open>null\<close> here.
\<close>

definition afterPoll ::
  "env \<Rightarrow> string \<Rightarrow> TaskResponse \<Rightarrow> event list \<Rightarrow>
     event list \<times> js_number option PaperlessArchiveResult"
where
  "afterPoll e token task_info tr =
     (let task_status = status task_info;
          document_id = Finite (id_num task_info)
      in
      if task_status = ''FAILURE'' then
        (if REPROCESS_EXISTING_DOCUMENTS then
           (let duplicate_string = ''It is a duplicate'' in
            case result task_info of
              None \<Rightarrow> (tr, failure (Some document_id))
            | Some res \<Rightarrow>
                if res \<noteq> '''' \<and> includes_str res duplicate_string then
                  (case extractDuplicateId res of
                     None \<Rightarrow> (tr, failure (Some document_id))
                   | Some duplicate_id \<Rightarrow>
                       if number_truthy duplicate_id
                       then downloadAndExtract e token duplicate_id tr
                       else (tr, failure (Some document_id)))
                else (tr, failure (Some document_id)))
         else (tr, failure (Some document_id)))
      else downloadAndExtract e token document_id tr)"

text \<open>
  \<^verbatim>\<open>processDocumentWithPaperless\<close>. The value is \<open>None\<close> when the poll never ends,
  and otherwise the trace of collaborator calls with either the exception that reaches the
  caller (\<open>Inl\<close>) or the returned result (\<open>Inr\<close>). The test
  \<^verbatim>\<open>!paperless_task_uuid || paperless_task_uuid == ""\<close> is outside every \<^verbatim>\<open>try\<close>,
  and so is the call of the poller. (The poller builds its URL from the string conversion
  of the identifier; for an identifier that has passed the test that conversion does not
  throw.)
\<close>

definition processDocumentWithPaperless ::
  "env \<Rightarrow> string \<Rightarrow> string \<Rightarrow> string \<Rightarrow>
     (event list \<times> (js_error + js_number option PaperlessArchiveResult)) option"
where
  "processDocumentWithPaperless e source_url hoarder_id token =
     (if source_url \<noteq> '''' then
        (let file_name = hoarder_id @ ''.pdf'';
             tr0 = [ExistsSync source_url]
         in
         if existsSync e source_url \<and> \<not> IGNORE_EXISTING_FILE
         then Some (tr0, Inr (failure None))
         else
           (case processAndIngestPDF e source_url file_name token of
              (tr1, Inl err) \<Rightarrow> Some (tr0 @ tr1, Inl err)
            | (tr1, Inr paperless_task_uuid) \<Rightarrow>
                (case (if \<not> truthy paperless_task_uuid then Inr True
                       else loose_eq_empty paperless_task_uuid) of
                   Inl err \<Rightarrow> Some (tr0 @ tr1, Inl err)
                 | Inr True \<Rightarrow> Some (tr0 @ tr1, Inr (failure None))
                 | Inr False \<Rightarrow>
                     (case pollPaperlessTaskStatus e paperless_task_uuid token 0 (tr0 @ tr1) of
                        None \<Rightarrow> None
                      | Some (tr2, Inl err) \<Rightarrow> Some (tr2, Inl err)
                      | Some (tr2, Inr None) \<Rightarrow> Some (tr2, Inr (failure None))
                      | Some (tr2, Inr (Some task_info)) \<Rightarrow>
                          (case afterPoll e token task_info tr2 of
                             (tr3, r) \<Rightarrow> Some (tr3, Inr r))))))
      else Some ([], Inr (failure None)))"

section \<open>The older copy of the workflow\<close>

text \<open>
  The functions below embed the copy of the workflow in the server's companion file:
  \<^verbatim>\<open>postFileToPaperless\<close>, its \<^verbatim>\<open>processAndIngestPDF\<close>,
  \<^verbatim>\<open>pollPaperlessTaskStatus\<close>, \<^verbatim>\<open>downloadPaperlessDocument\<close> and
  \<^verbatim>\<open>processDocumentWithPaperless\<close>; \<^verbatim>\<open>uploadDocument\<close> and
  \<^verbatim>\<open>createFileObject\<close> are the same there.
\<close>

text \<open>The file is written under its bare name; no directory is created.\<close>

definition processAndIngestPDF_legacy ::
  "legacy_env \<Rightarrow> string \<Rightarrow> string \<Rightarrow> string \<Rightarrow> event list \<times> json"
where
  "processAndIngestPDF_legacy e pdfUrl fileName token =
     (let tr1 = [FetchSource pdfUrl] in
      case fetch_source e pdfUrl of
        Inl err \<Rightarrow> (tr1, JNull)
      | Inr pdfResponse \<Rightarrow>
          if \<not> ok pdfResponse then (tr1, JNull)
          else
            (case arrayBuffer pdfResponse of
               Inl err \<Rightarrow> (tr1, JNull)
             | Inr pdfBuffer \<Rightarrow>
                 (let tr2 = tr1 @ [WriteFile (File fileName) pdfBuffer] in
                  case writeFile e (File fileName) pdfBuffer of
                    Some err \<Rightarrow> (tr2, JNull)
                  | None \<Rightarrow>
                      (case uploadDocument e (File fileName) token of
                         (tr3, data) \<Rightarrow> (tr2 @ tr3, data)))))"

definition postFileToPaperless ::
  "legacy_env \<Rightarrow> string \<Rightarrow> string \<Rightarrow> string \<Rightarrow> event list \<times> json"
where
  "postFileToPaperless e source_url fileName token =
     (if \<not> IGNORE_EXISTING_FILE then
        (if existsSync e fileName then ([ExistsSync fileName], JNull)
         else
           (case processAndIngestPDF_legacy e source_url fileName token of
              (tr, data) \<Rightarrow> (ExistsSync fileName # tr, data)))
      else processAndIngestPDF_legacy e source_url fileName token)"

text \<open>
  The loop of the older poller. The parse of the body is outside every \<^verbatim>\<open>try\<close>, and
  the first element is read without a test for \<^verbatim>\<open>null\<close> or the empty list.
\<close>

partial_function (option) pollLoop_legacy ::
  "legacy_env \<Rightarrow> json \<Rightarrow> string \<Rightarrow> nat \<Rightarrow> event list \<Rightarrow>
     (event list \<times> (js_error + TaskResponse option)) option"
where
  "pollLoop_legacy e taskUuid token n tr =
     (let tr1 = tr @ [FetchTasks taskUuid token] in
      case fetch_tasks e taskUuid token n of
        Inl err \<Rightarrow> Some (tr1, Inr None)
      | Inr response \<Rightarrow>
          if \<not> ok response then Some (tr1, Inr None)
          else if status_code response = 200 then
            (case json_body response of
               Inl err \<Rightarrow> Some (tr1, Inl err)
             | Inr None \<Rightarrow> Some (tr1, Inl (TypeError ''null is not an object''))
             | Inr (Some []) \<Rightarrow> Some (tr1, Inl (TypeError ''undefined is not an object''))
             | Inr (Some (None # others)) \<Rightarrow>
                 Some (tr1, Inl (TypeError ''null is not an object''))
             | Inr (Some (Some task_response # others)) \<Rightarrow>
                 let task_status = status task_response;
                     tr2 = (if task_status = ''PENDING'' then tr1 @ [Sleep 5000] else tr1)
                 in
                   if task_status \<noteq> '''' \<and> task_status \<noteq> ''PENDING''
                   then Some (tr2, Inr (Some task_response))
                   else pollLoop_legacy e taskUuid token (Suc n) tr2)
          else Some (tr1, Inr None))"

text \<open>
  The older poller: the URL is built from the string conversion of the identifier, which
  can throw, and then the loop runs.
\<close>

definition pollPaperlessTaskStatus_legacy ::
  "legacy_env \<Rightarrow> json \<Rightarrow> string \<Rightarrow> event list \<Rightarrow>
     (event list \<times> (js_error + TaskResponse option)) option"
where
  "pollPaperlessTaskStatus_legacy e taskUuid token tr =
     (if string_conversion taskUuid = Throws
      then Some (tr, Inl (TypeError ''Cannot convert object to primitive value''))
      else pollLoop_legacy e taskUuid token 0 tr)"

text \<open>Every error is caught inside and gives \<^verbatim>\<open>null\<close>.\<close>

definition downloadPaperlessDocument_legacy ::
  "legacy_env \<Rightarrow> string \<Rightarrow> bool \<Rightarrow> event list \<times> buffer option"
where
  "downloadPaperlessDocument_legacy e documentId original =
     ([FetchDownloadLegacy documentId original],
      case fetch_download_legacy e documentId original of
        Inl err \<Rightarrow> None
      | Inr response \<Rightarrow>
          if \<not> ok response then None
          else (case arrayBuffer response of Inl err \<Rightarrow> None | Inr b \<Rightarrow> Some b))"

text \<open>
  The older \<^verbatim>\<open>processDocumentWithPaperless\<close>. The result carries the upload's answer
  as \<open>uuid\<close>. The extracted text is returned as it is, with no test for the empty string.
  The temporary directory is \<^verbatim>\<open>join(tmpdir(), 'pdf_temp')\<close>, written here as a
  concatenation.
\<close>

definition processDocumentWithPaperless_legacy ::
  "legacy_env \<Rightarrow> string \<Rightarrow> string \<Rightarrow> string \<Rightarrow>
     (event list \<times> (js_error + json PaperlessArchiveResult)) option"
where
  "processDocumentWithPaperless_legacy e source_url hoarder_id token =
     (if source_url \<noteq> '''' then
        (let file_name = hoarder_id @ ''.pdf'';
             tr0 = [ExistsSync source_url]
         in
         if existsSync e source_url
         then Some (tr0, Inr \<lparr>new_entry = False, uuid = JStr '''', content = ''''\<rparr>)
         else
           (case postFileToPaperless e source_url file_name token of
              (tr1, paperless_task_uuid) \<Rightarrow>
                if truthy paperless_task_uuid then
                  (if truthy paperless_task_uuid \<and> paperless_task_uuid \<noteq> JStr ''''
                   then
                     (case pollPaperlessTaskStatus_legacy e paperless_task_uuid token
                             (tr0 @ tr1) of
                        None \<Rightarrow> None
                      | Some (tr2, Inl err) \<Rightarrow> Some (tr2, Inl err)
                      | Some (tr2, Inr None) \<Rightarrow> Some (tr2, Inr (failure paperless_task_uuid))
                      | Some (tr2, Inr (Some task_info)) \<Rightarrow>
                          (let task_status = status task_info;
                               document_uuid = task_id task_info
                           in
                           if task_status \<noteq> ''FAILURE'' then
                             (case downloadPaperlessDocument_legacy e document_uuid False of
                                (tr3, None) \<Rightarrow>
                                  Some (tr2 @ tr3, Inr (failure paperless_task_uuid))
                              | (tr3, Some document_buffer) \<Rightarrow>
                                  (let temp_dir = tmpdir e @ ''/pdf_temp'';
                                       exists = existsSync e temp_dir;
                                       tr4 = tr2 @ tr3 @
                                         (if exists then [ExistsSync temp_dir]
                                          else [ExistsSync temp_dir, MkdirSync temp_dir])
                                   in
                                   case (if exists then None else mkdirSync e temp_dir) of
                                     Some err \<Rightarrow> Some (tr4, Inl err)
                                   | None \<Rightarrow>
                                       (let temp_path = Join temp_dir (document_uuid @ ''.pdf'');
                                            tr5 = tr4 @ [WriteFile temp_path document_buffer]
                                        in
                                        case writeFile e temp_path document_buffer of
                                          Some err \<Rightarrow>
                                            Some (tr5, Inr (failure paperless_task_uuid))
                                        | None \<Rightarrow>
                                            (let tr6 = tr5 @ [ReadPdfText temp_path] in
                                             case readPdfText e temp_path of
                                               Inl err \<Rightarrow>
                                                 Some (tr6, Inr (failure paperless_task_uuid))
                                             | Inr document_text \<Rightarrow>
                                                 Some (tr6,
                                                   Inr \<lparr>new_entry = True,
                                                        uuid = paperless_task_uuid,
                                                        content = document_text\<rparr>)))))
                           else Some (tr2, Inr (failure paperless_task_uuid))))
                   else Some (tr0 @ tr1, Inr (failure paperless_task_uuid)))
                else Some (tr0 @ tr1, Inr (failure paperless_task_uuid))))
      else Some ([], Inr (failure JNull)))"

section \<open>Specification-side definitions\<close>

text \<open>
  The integer that a run of decimal digits denotes in positional notation. This follows the
  specification's words ("parse the first run of decimal digits"), not the code; the code's
  \<open>parseInt\<close> is compared with it below.
\<close>

primrec digits_value :: "string \<Rightarrow> int" where
  "digits_value [] = 0"
| "digits_value (d # ds) = (int (of_char d) - 48) * 10 ^ length ds + digits_value ds"

section \<open>Predicates on the task endpoint's answers\<close>

text \<open>
  The \<open>n\<close>-th status query is answered with status 200 and a list whose first record has
  status \<^verbatim>\<open>PENDING\<close>.
\<close>

definition pending_at :: "env \<Rightarrow> json \<Rightarrow> string \<Rightarrow> nat \<Rightarrow> bool" where
  "pending_at e taskUuid token n =
     (case fetch_tasks e taskUuid token n of
        Inl err \<Rightarrow> False
      | Inr response \<Rightarrow>
          status_code response = 200 \<and>
          (case json_body response of
             Inr (Some (Some task_response # others)) \<Rightarrow> status task_response = ''PENDING''
           | _ \<Rightarrow> False))"

text \<open>
  The \<open>n\<close>-th status query is answered in a way that makes the loop go round again: status
  200 and a list whose first record has status \<^verbatim>\<open>PENDING\<close> or the empty status.
\<close>

definition keeps_polling :: "env \<Rightarrow> json \<Rightarrow> string \<Rightarrow> nat \<Rightarrow> bool" where
  "keeps_polling e taskUuid token n =
     (case fetch_tasks e taskUuid token n of
        Inl err \<Rightarrow> False
      | Inr response \<Rightarrow>
          status_code response = 200 \<and>
          (case json_body response of
             Inr (Some (Some task_response # others)) \<Rightarrow>
               status task_response = ''PENDING'' \<or> status task_response = ''''
           | _ \<Rightarrow> False))"

section \<open>Sample collaborators\<close>

definition sample_task :: "string \<Rightarrow> string option \<Rightarrow> TaskResponse" where
  "sample_task st res =
     \<lparr>id_num = 12, task_id = ''t-1'', task_file_name = ''h1.pdf'',
      date_created = ''2024-06-28'', date_done = None, type_name = ''file'',
      status = st, result = res, acknowledged = False, related_document = None\<rparr>"

definition http_response :: "nat \<Rightarrow> 'j \<Rightarrow> 'j response" where
  "http_response code body =
     \<lparr>status_code = code, statusText = '''', arrayBuffer = Inr [37, 80, 68, 70],
      json_body = Inr body\<rparr>"

text \<open>
  A world in which the directories are missing, every file operation and download works,
  and the extractor yields a fixed text; what \<^verbatim>\<open>mkdirSync\<close> does, the upload's
  response and the task endpoint's answers are the parameters.
\<close>

definition sample_env ::
  "js_error option \<Rightarrow> (js_error + json response) \<Rightarrow>
   (nat \<Rightarrow> js_error + task_list response) \<Rightarrow> env"
where
  "sample_env mk up tasks =
     \<lparr>existsSync = (\<lambda>p. False),
      mkdirSync = (\<lambda>p. mk),
      writeFile = (\<lambda>p b. None),
      bunFile_arrayBuffer = (\<lambda>p. Inr [37, 80, 68, 70]),
      fetch_source = (\<lambda>u. Inr (http_response 200 ())),
      fetch_post_document = (\<lambda>p t. up),
      fetch_tasks = (\<lambda>u t n. tasks n),
      fetch_download = (\<lambda>d orig t. Inr (http_response 200 ())),
      readPdfText = (\<lambda>p. Inr ''Invoice 2024'')\<rparr>"

text \<open>Task endpoints: one answer for ever, and two \<^verbatim>\<open>PENDING\<close> answers before a final one.\<close>

definition always :: "'a \<Rightarrow> nat \<Rightarrow> 'a" where
  "always r n = r"

definition tasks_answer :: "TaskResponse \<Rightarrow> js_error + task_list response" where
  "tasks_answer r = Inr (http_response 200 (Some [Some r]))"

definition pending_twice_then ::
  "TaskResponse \<Rightarrow> nat \<Rightarrow> js_error + task_list response"
where
  "pending_twice_then r n =
     (if n = 2 then tasks_answer r else tasks_answer (sample_task ''PENDING'' None))"

text \<open>
  The collaborators of the older copy: everything works, the task endpoint reports a
  finished task at once, and the extractor yields the given text.
\<close>

definition sample_legacy_env :: "string \<Rightarrow> legacy_env" where
  "sample_legacy_env text =
     \<lparr>existsSync = (\<lambda>p. False),
      mkdirSync = (\<lambda>p. None),
      writeFile = (\<lambda>p b. None),
      bunFile_arrayBuffer = (\<lambda>p. Inr [37, 80, 68, 70]),
      fetch_source = (\<lambda>u. Inr (http_response 200 ())),
      fetch_post_document = (\<lambda>p t. Inr (http_response 200 (JStr ''t-1''))),
      fetch_tasks = (\<lambda>u t n. tasks_answer (sample_task ''SUCCESS'' None)),
      fetch_download = (\<lambda>d orig t. Inr (http_response 200 ())),
      readPdfText = (\<lambda>p. Inr text),
      fetch_download_legacy = (\<lambda>d orig. Inr (http_response 200 ())),
      tmpdir = ''/tmp''\<rparr>"

section \<open>Predicates on the collaborators' answers\<close>





section \<open>The duplicate resolver\<close>

lemma lastIndexOf_below_absent:
  "\<forall>i<k. s ! i \<noteq> c \<Longrightarrow> lastIndexOf_below s c k = - 1"
  by (induction k) auto

lemma lastIndexOf_below_last:
  "k \<le> length (pre @ c # post) \<Longrightarrow> length pre < k \<Longrightarrow> c \<notin> set post \<Longrightarrow>
   lastIndexOf_below (pre @ c # post) c k = int (length pre)"
proof (induction k)
  case 0 then show ?case by simp
next
  case (Suc k)
  show ?case
  proof (cases "k = length pre")
    case True then show ?thesis by simp
  next
    case False
    with Suc.prems have lt: "length pre < k" by simp
    have "(pre @ c # post) ! k = post ! (k - Suc (length pre))"
      using lt by (simp add: nth_append nth_Cons')
    moreover have "k - Suc (length pre) < length post" using Suc.prems lt by simp
    ultimately have "(pre @ c # post) ! k \<noteq> c" using Suc.prems(3)
      by (metis nth_mem)
    then show ?thesis using Suc lt by simp
  qed
qed

lemma lastIndexOf_absent: "c \<notin> set s \<Longrightarrow> lastIndexOf s c = - 1"
  unfolding lastIndexOf_def by (rule lastIndexOf_below_absent) auto

lemma lastIndexOf_last:
  "c \<notin> set post \<Longrightarrow> lastIndexOf (pre @ c # post) c = int (length pre)"
  unfolding lastIndexOf_def by (rule lastIndexOf_below_last) simp_all

lemma digits_value_snoc:
  "digits_value (m @ [c]) = 10 * digits_value m + (int (of_char c) - 48)"
  by (induction m) (simp_all add: algebra_simps)

lemma foldl_digits_value:
  "foldl (\<lambda>acc c. 10 * acc + (int (of_char c) - 48)) 0 m = digits_value m"
  by (induction m rule: rev_induct) (simp_all add: digits_value_snoc)

lemma parseInt_digits_value: "parseInt m = to_double (digits_value m)"
  by (simp add: parseInt_def foldl_digits_value)

lemma to_double_exact: "v < 2 ^ 53 \<Longrightarrow> to_double v = Finite v"
  by (simp add: to_double_def)

lemma bit_length_2_53: "bit_length (2 ^ 53) = 54"
  by code_simp

lemma to_double_2_53: "to_double (2 ^ 53) = Finite (2 ^ 53)"
  by (simp add: to_double_def bit_length_2_53 Let_def)

lemma to_double_exact_le: "v \<le> 2 ^ 53 \<Longrightarrow> to_double v = Finite v"
  using to_double_exact[of v] to_double_2_53 by (cases "v = 2 ^ 53") auto

lemma match_digits_none: "\<forall>c\<in>set s. \<not> isDigit c \<Longrightarrow> match_digits s = None"
proof -
  assume a: "\<forall>c\<in>set s. \<not> isDigit c"
  then have d: "dropWhile (\<lambda>c. \<not> isDigit c) s = []"
    by (simp add: dropWhile_eq_Nil_conv)
  show ?thesis unfolding match_digits_def d by simp
qed

lemma match_digits_first_run:
  assumes junk: "\<forall>c\<in>set junk. \<not> isDigit c"
      and ds: "ds \<noteq> []" "\<forall>c\<in>set ds. isDigit c"
      and rest: "rest = [] \<or> \<not> isDigit (hd rest)"
  shows "match_digits (junk @ ds @ rest) = Some ds"
proof -
  have hd: "isDigit (hd ds)" using ds by (cases ds) auto
  have "dropWhile (\<lambda>c. \<not> isDigit c) (junk @ ds @ rest) = dropWhile (\<lambda>c. \<not> isDigit c) (ds @ rest)"
    using junk by (simp add: dropWhile_append2)
  also have "\<dots> = ds @ rest" using ds(1) hd by (cases ds) auto
  finally have d: "dropWhile (\<lambda>c. \<not> isDigit c) (junk @ ds @ rest) = ds @ rest" .
  have "takeWhile isDigit rest = []" using rest by (cases rest) auto
  then have "takeWhile isDigit (ds @ rest) = ds" using ds(2) by (simp add: takeWhile_append2)
  with d ds(1) show ?thesis by (simp add: match_digits_def)
qed

lemma extractDuplicateId_no_hash:
  "CHR ''#'' \<notin> set msg \<Longrightarrow> extractDuplicateId msg = None"
  by (simp add: extractDuplicateId_def lastIndexOf_absent)

lemma extractDuplicateId_after_last_hash:
  assumes "CHR ''#'' \<notin> set post"
  shows "extractDuplicateId (pre @ CHR ''#'' # post) =
           (case match_digits post of None \<Rightarrow> None | Some m \<Rightarrow> Some (parseInt m))"
proof -
  have "lastIndexOf (pre @ CHR ''#'' # post) (CHR ''#'') = int (length pre)"
    using assms by (rule lastIndexOf_last)
  moreover have "slice (pre @ CHR ''#'' # post) (int (length pre) + 1) = post"
    by (simp add: slice_def nat_add_distrib)
  ultimately show ?thesis
    by (simp add: extractDuplicateId_def Let_def split: option.splits)
qed

text \<open>
  Claim C6, amended. For every message, \<open>extractDuplicateId\<close> returns \<^verbatim>\<open>null\<close> when the
  message has no \<^verbatim>\<open>#\<close>; otherwise it looks only at what follows the last \<^verbatim>\<open>#\<close>: it
  returns \<^verbatim>\<open>null\<close> when no digit is there, and otherwise the Number value of the integer
  denoted by the first maximal run of decimal digits found there. That value is the
  integer itself whenever the integer is at most \<open>2 ^ 53\<close>. On the two example messages
  it returns 482 and \<^verbatim>\<open>null\<close>.
\<close>

theorem extractDuplicateId_last_hash_first_digits:
  "(CHR ''#'' \<notin> set msg \<longrightarrow> extractDuplicateId msg = None)
   \<and> (\<forall>pre post. msg = pre @ CHR ''#'' # post \<and> CHR ''#'' \<notin> set post \<longrightarrow>
        ((\<forall>c\<in>set post. \<not> isDigit c) \<longrightarrow> extractDuplicateId msg = None)
        \<and> (\<forall>junk ds rest.
              post = junk @ ds @ rest \<and> (\<forall>c\<in>set junk. \<not> isDigit c)
              \<and> ds \<noteq> [] \<and> (\<forall>c\<in>set ds. isDigit c)
              \<and> (rest = [] \<or> \<not> isDigit (hd rest))
              \<longrightarrow> extractDuplicateId msg = Some (to_double (digits_value ds))
                \<and> (digits_value ds \<le> 2 ^ 53 \<longrightarrow>
                      extractDuplicateId msg = Some (Finite (digits_value ds)))))
   \<and> extractDuplicateId ''Not consumed: It is a duplicate of INV-2024.pdf (#482)''
       = Some (Finite 482)
   \<and> extractDuplicateId ''It is a duplicate of file.pdf'' = None"
proof -
  have a: "CHR ''#'' \<notin> set msg \<longrightarrow> extractDuplicateId msg = None"
    by (simp add: extractDuplicateId_no_hash)
  have b: "\<forall>pre post. msg = pre @ CHR ''#'' # post \<and> CHR ''#'' \<notin> set post \<longrightarrow>
        ((\<forall>c\<in>set post. \<not> isDigit c) \<longrightarrow> extractDuplicateId msg = None)
        \<and> (\<forall>junk ds rest.
              post = junk @ ds @ rest \<and> (\<forall>c\<in>set junk. \<not> isDigit c)
              \<and> ds \<noteq> [] \<and> (\<forall>c\<in>set ds. isDigit c)
              \<and> (rest = [] \<or> \<not> isDigit (hd rest))
              \<longrightarrow> extractDuplicateId msg = Some (to_double (digits_value ds))
                \<and> (digits_value ds \<le> 2 ^ 53 \<longrightarrow>
                      extractDuplicateId msg = Some (Finite (digits_value ds))))"
  proof (intro allI impI)
    fix pre post
    assume m: "msg = pre @ CHR ''#'' # post \<and> CHR ''#'' \<notin> set post"
    have none: "(\<forall>c\<in>set post. \<not> isDigit c) \<longrightarrow> extractDuplicateId msg = None"
      using m by (simp add: extractDuplicateId_after_last_hash match_digits_none)
    have some: "\<forall>junk ds rest.
              post = junk @ ds @ rest \<and> (\<forall>c\<in>set junk. \<not> isDigit c)
              \<and> ds \<noteq> [] \<and> (\<forall>c\<in>set ds. isDigit c)
              \<and> (rest = [] \<or> \<not> isDigit (hd rest))
              \<longrightarrow> extractDuplicateId msg = Some (to_double (digits_value ds))
                \<and> (digits_value ds \<le> 2 ^ 53 \<longrightarrow>
                      extractDuplicateId msg = Some (Finite (digits_value ds)))"
    proof (intro allI impI)
      fix junk ds rest
      assume p: "post = junk @ ds @ rest \<and> (\<forall>c\<in>set junk. \<not> isDigit c)
              \<and> ds \<noteq> [] \<and> (\<forall>c\<in>set ds. isDigit c)
              \<and> (rest = [] \<or> \<not> isDigit (hd rest))"
      have "match_digits post = Some ds"
        using p match_digits_first_run[of junk ds rest] by blast
      then have e: "extractDuplicateId msg = Some (to_double (digits_value ds))"
        using m by (simp add: extractDuplicateId_after_last_hash parseInt_digits_value)
      show "extractDuplicateId msg = Some (to_double (digits_value ds))
                \<and> (digits_value ds \<le> 2 ^ 53 \<longrightarrow>
                      extractDuplicateId msg = Some (Finite (digits_value ds)))"
        using e to_double_exact_le[of "digits_value ds"] by simp
    qed
    show "((\<forall>c\<in>set post. \<not> isDigit c) \<longrightarrow> extractDuplicateId msg = None)
        \<and> (\<forall>junk ds rest.
              post = junk @ ds @ rest \<and> (\<forall>c\<in>set junk. \<not> isDigit c)
              \<and> ds \<noteq> [] \<and> (\<forall>c\<in>set ds. isDigit c)
              \<and> (rest = [] \<or> \<not> isDigit (hd rest))
              \<longrightarrow> extractDuplicateId msg = Some (to_double (digits_value ds))
                \<and> (digits_value ds \<le> 2 ^ 53 \<longrightarrow>
                      extractDuplicateId msg = Some (Finite (digits_value ds))))"
      using none some by (rule conjI)
  qed
  have c: "extractDuplicateId ''Not consumed: It is a duplicate of INV-2024.pdf (#482)''
       = Some (Finite 482)"
    by code_simp
  have d: "extractDuplicateId ''It is a duplicate of file.pdf'' = None"
    by code_simp
  show ?thesis using a b c d by (intro conjI)
qed

theorem extractDuplicateId_last_hash_first_digits_witness:
  "extractDuplicateId ''a#1 dup (#27b3)'' = Some (Finite 27)
   \<and> extractDuplicateId ''#1 (#none)'' = None
   \<and> extractDuplicateId ''no hash 12'' = None"
proof -
  let ?m = "''a#1 dup (#27b3)''"
  have a: "?m = ''a#1 dup ('' @ CHR ''#'' # ''27b3)'' \<and> CHR ''#'' \<notin> set ''27b3)''" by simp
  have b: "''27b3)'' = [] @ ''27'' @ ''b3)'' \<and> (\<forall>c\<in>set []. \<not> isDigit c)
      \<and> ''27'' \<noteq> [] \<and> (\<forall>c\<in>set ''27''. isDigit c) \<and> (''b3)'' = [] \<or> \<not> isDigit (hd ''b3)''))"
    by (simp add: isDigit_def)
  have v: "digits_value ''27'' = 27" by simp
  have "digits_value ''27'' \<le> 2 ^ 53 \<longrightarrow>
      extractDuplicateId ?m = Some (Finite (digits_value ''27''))"
    using extractDuplicateId_last_hash_first_digits[of ?m] a b by blast
  then have 1: "extractDuplicateId ?m = Some (Finite 27)" by (simp add: v)
  let ?k = "''#1 (#none)''"
  have c: "?k = ''#1 ('' @ CHR ''#'' # ''none)'' \<and> CHR ''#'' \<notin> set ''none)''" by simp
  have d: "\<forall>c\<in>set ''none)''. \<not> isDigit c" by (simp add: isDigit_def)
  have 2: "extractDuplicateId ?k = None"
    using extractDuplicateId_last_hash_first_digits[of ?k] c d by blast
  have e: "CHR ''#'' \<notin> set ''no hash 12''" by simp
  have 3: "extractDuplicateId ''no hash 12'' = None"
    using extractDuplicateId_last_hash_first_digits[of "''no hash 12''"] e by blast
  show ?thesis using 1 2 3 by blast
qed

text \<open>
  The claim as first stated (the integer that the digits denote) fails above \<open>2 ^ 53\<close>:
  the digits of \<open>2 ^ 53 + 1\<close> give \<open>2 ^ 53\<close>, a tie is rounded to the even neighbour,
  and a run of 400 digits gives \<^verbatim>\<open>Infinity\<close>.
\<close>

theorem extractDuplicateId_rounds_counterexample:
  "digits_value ''9007199254740993'' = 9007199254740993
   \<and> extractDuplicateId ''It is a duplicate of a.pdf (#9007199254740993)''
       = Some (Finite 9007199254740992)"
  by code_simp

lemma to_double_tie_to_even: "to_double 9007199254740995 = Finite 9007199254740996"
  by code_simp

lemma to_double_overflow: "to_double (10 ^ 400) = Infinity"
  by code_simp

text \<open>\<^verbatim>\<open>includes\<close> is the substring test.\<close>

lemma startsWith_iff: "startsWith s t \<longleftrightarrow> (\<exists>post. s = t @ post)"
  by (induction s t rule: startsWith.induct) auto

lemma includes_str_iff: "includes_str s t \<longleftrightarrow> (\<exists>pre post. s = pre @ t @ post)"
proof (induction s)
  case Nil
  show ?case by auto
next
  case (Cons c s)
  show ?case
  proof
    assume "includes_str (c # s) t"
    then have "startsWith (c # s) t \<or> includes_str s t" by simp
    then show "\<exists>pre post. c # s = pre @ t @ post"
    proof
      assume "startsWith (c # s) t"
      then obtain post where "c # s = [] @ t @ post" by (auto simp: startsWith_iff)
      then show ?thesis by blast
    next
      assume "includes_str s t"
      with Cons obtain pre post where "s = pre @ t @ post" by blast
      then have "c # s = (c # pre) @ t @ post" by simp
      then show ?thesis by blast
    qed
  next
    assume "\<exists>pre post. c # s = pre @ t @ post"
    then obtain pre post where eq: "c # s = pre @ t @ post" by blast
    show "includes_str (c # s) t"
    proof (cases pre)
      case Nil
      with eq have "startsWith (c # s) t" by (simp add: startsWith_iff)
      then show ?thesis by simp
    next
      case (Cons a pre')
      with eq have "s = pre' @ t @ post" by simp
      with Cons.IH have "includes_str s t" by blast
      then show ?thesis by simp
    qed
  qed
qed

section \<open>The task poller\<close>

lemma poll_round:
  assumes "keeps_polling e u t n"
  shows "pollPaperlessTaskStatus e u t n tr =
         pollPaperlessTaskStatus e u t (Suc n)
           (if pending_at e u t n then tr @ [FetchTasks u t, Sleep 5000]
            else tr @ [FetchTasks u t])"
  using assms
  apply (subst pollPaperlessTaskStatus.simps)
  apply (auto simp: keeps_polling_def pending_at_def ok_def Let_def
              split: sum.splits option.splits list.splits)
  done

lemma pending_keeps_polling: "pending_at e u t n \<Longrightarrow> keeps_polling e u t n"
  by (auto simp: keeps_polling_def pending_at_def split: sum.splits option.splits list.splits)

lemma poll_pending_step:
  "pending_at e u t n \<Longrightarrow>
   pollPaperlessTaskStatus e u t n tr =
   pollPaperlessTaskStatus e u t (Suc n) (tr @ [FetchTasks u t, Sleep 5000])"
  using poll_round[OF pending_keeps_polling, of e u t n tr] by simp

lemma concat_replicate_Suc: "concat (replicate (Suc k) xs) = concat (replicate k xs) @ xs"
  by (induction k) simp_all

lemma poll_pending_steps:
  "\<forall>i<k. pending_at e u t (n + i) \<Longrightarrow>
   pollPaperlessTaskStatus e u t n tr =
   pollPaperlessTaskStatus e u t (n + k)
     (tr @ concat (replicate k [FetchTasks u t, Sleep 5000]))"
proof (induction k)
  case 0
  show ?case by simp
next
  case (Suc k)
  have "pollPaperlessTaskStatus e u t n tr =
        pollPaperlessTaskStatus e u t (n + k)
          (tr @ concat (replicate k [FetchTasks u t, Sleep 5000]))"
    using Suc by simp
  also have "\<dots> = pollPaperlessTaskStatus e u t (Suc (n + k))
          ((tr @ concat (replicate k [FetchTasks u t, Sleep 5000])) @
             [FetchTasks u t, Sleep 5000])"
    using Suc.prems by (intro poll_pending_step) simp
  also have "(tr @ concat (replicate k [FetchTasks u t, Sleep 5000])) @
             [FetchTasks u t, Sleep 5000] =
             tr @ concat (replicate (Suc k) [FetchTasks u t, Sleep 5000])"
    by (simp only: concat_replicate_Suc append_assoc)
  finally show ?case by simp
qed


lemma poll_returns_stop:
  "pollPaperlessTaskStatus e u t n tr = Some y \<Longrightarrow> \<exists>m\<ge>n. \<not> keeps_polling e u t m"
proof (induction rule: pollPaperlessTaskStatus.raw_induct[rotated 1, consumes 1])
  case (1 poll e u t n tr y)
  show ?case
  proof (cases "keeps_polling e u t n")
    case False
    then show ?thesis by blast
  next
    case True
    with 1(2) obtain tr' where "poll e u t (Suc n) tr' = Some y"
      by (auto simp: keeps_polling_def ok_def Let_def
               split: sum.splits option.splits list.splits if_splits)
    from 1(1)[OF this] show ?thesis using Suc_leD by blast
  qed
qed

lemma poll_diverges:
  assumes "\<forall>m\<ge>n. keeps_polling e u t m"
  shows "pollPaperlessTaskStatus e u t n tr = None"
proof (cases "pollPaperlessTaskStatus e u t n tr")
  case None
  then show ?thesis .
next
  case (Some y)
  from poll_returns_stop[OF this] assms show ?thesis by blast
qed


lemma poll_returned_record:
  "pollPaperlessTaskStatus e u t n tr = Some (tr', Inr (Some task_info)) \<Longrightarrow>
   \<exists>m\<ge>n. \<exists>response others.
     fetch_tasks e u t m = Inr response \<and> status_code response = 200 \<and>
     json_body response = Inr (Some (Some task_info # others)) \<and>
     status task_info \<noteq> '''' \<and> status task_info \<noteq> ''PENDING''"
proof (induction e u t n tr
        "(tr', Inr (Some task_info)) :: event list \<times> (js_error + TaskResponse option)"
        rule: pollPaperlessTaskStatus.raw_induct[rotated 1, consumes 1])
  case (1 poll e u t n tr)
  show ?case
  proof (cases "keeps_polling e u t n")
    case True
    with 1(2) obtain tr0 where "poll e u t (Suc n) tr0 = Some (tr', Inr (Some task_info))"
      by (auto simp: keeps_polling_def ok_def Let_def
               split: sum.splits option.splits list.splits if_splits)
    from 1(1)[OF this] show ?thesis using Suc_leD by blast
  next
    case False
    with 1(2) have "\<exists>response others.
        fetch_tasks e u t n = Inr response \<and> status_code response = 200 \<and>
        json_body response = Inr (Some (Some task_info # others)) \<and>
        status task_info \<noteq> '''' \<and> status task_info \<noteq> ''PENDING''"
      by (auto simp: keeps_polling_def ok_def Let_def
               split: sum.splits option.splits list.splits if_splits)
    then show ?thesis by blast
  qed
qed

lemma poll_terminal_after_pending:
  assumes "\<forall>i<k. pending_at e u t (n + i)"
      and "fetch_tasks e u t (n + k) = Inr response"
      and "status_code response = 200"
      and "json_body response = Inr (Some (Some r # others))"
      and "status r \<noteq> ''''" and "status r \<noteq> ''PENDING''"
  shows "pollPaperlessTaskStatus e u t n tr =
         Some (tr @ concat (replicate k [FetchTasks u t, Sleep 5000]) @ [FetchTasks u t],
               Inr (Some r))"
proof -
  have "pollPaperlessTaskStatus e u t (n + k) tr0 = Some (tr0 @ [FetchTasks u t], Inr (Some r))"
    for tr0
    using assms(2-6)
    by (subst pollPaperlessTaskStatus.simps) (simp add: ok_def Let_def)
  then show ?thesis
    using poll_pending_steps[OF assms(1), of tr] by simp
qed

text \<open>
  Claim C5. Whenever the first record of a 200 answer has status \<^verbatim>\<open>PENDING\<close>, the poller
  sleeps 5000 ms and queries again, and this for any number \<open>k\<close> of such answers in a row
  (no attempt cap): after \<open>k\<close> such answers the poller is in the state of a poller started
  at query \<open>n + k\<close>, with \<open>k\<close> queries and \<open>k\<close> sleeps in its trace. If every answer is
  of this kind the poller never returns (no timeout). If the \<open>k\<close> answers are followed by
  a 200 answer whose first record has a non-empty status other than \<^verbatim>\<open>PENDING\<close>, the poller
  makes that one further query and returns this record. A record is returned only when
  some answer is of that last kind, and the record returned is its first record.
\<close>

theorem poll_pending_sleeps_and_repeats:
  "(\<forall>k. (\<forall>i<k. pending_at e taskUuid token (n + i)) \<longrightarrow>
        pollPaperlessTaskStatus e taskUuid token n tr =
        pollPaperlessTaskStatus e taskUuid token (n + k)
          (tr @ concat (replicate k [FetchTasks taskUuid token, Sleep 5000])))
   \<and> ((\<forall>i. pending_at e taskUuid token (n' + i)) \<longrightarrow>
        pollPaperlessTaskStatus e taskUuid token n' tr' = None)
   \<and> (\<forall>tr'' task_info.
        pollPaperlessTaskStatus e taskUuid token n tr = Some (tr'', Inr (Some task_info)) \<longrightarrow>
        (\<exists>m\<ge>n. \<exists>response others.
           fetch_tasks e taskUuid token m = Inr response \<and> status_code response = 200 \<and>
           json_body response = Inr (Some (Some task_info # others)) \<and>
           status task_info \<noteq> '''' \<and> status task_info \<noteq> ''PENDING''))
   \<and> (\<forall>k response r others.
        (\<forall>i<k. pending_at e taskUuid token (n + i)) \<and>
        fetch_tasks e taskUuid token (n + k) = Inr response \<and> status_code response = 200 \<and>
        json_body response = Inr (Some (Some r # others)) \<and>
        status r \<noteq> '''' \<and> status r \<noteq> ''PENDING'' \<longrightarrow>
        pollPaperlessTaskStatus e taskUuid token n tr =
          Some (tr @ concat (replicate k [FetchTasks taskUuid token, Sleep 5000])
                   @ [FetchTasks taskUuid token],
                Inr (Some r)))"
proof -
  have c1: "\<forall>k. (\<forall>i<k. pending_at e taskUuid token (n + i)) \<longrightarrow>
        pollPaperlessTaskStatus e taskUuid token n tr =
        pollPaperlessTaskStatus e taskUuid token (n + k)
          (tr @ concat (replicate k [FetchTasks taskUuid token, Sleep 5000]))"
    using poll_pending_steps by blast
  have c2: "(\<forall>i. pending_at e taskUuid token (n' + i)) \<longrightarrow>
        pollPaperlessTaskStatus e taskUuid token n' tr' = None"
  proof
    assume a: "\<forall>i. pending_at e taskUuid token (n' + i)"
    have "\<forall>m\<ge>n'. keeps_polling e taskUuid token m"
    proof (intro allI impI)
      fix m assume "n' \<le> m"
      then have "m = n' + (m - n')" by simp
      with a have "pending_at e taskUuid token m" by metis
      then show "keeps_polling e taskUuid token m" by (rule pending_keeps_polling)
    qed
    then show "pollPaperlessTaskStatus e taskUuid token n' tr' = None"
      by (rule poll_diverges)
  qed
  have c3: "\<forall>tr'' task_info.
        pollPaperlessTaskStatus e taskUuid token n tr = Some (tr'', Inr (Some task_info)) \<longrightarrow>
        (\<exists>m\<ge>n. \<exists>response others.
           fetch_tasks e taskUuid token m = Inr response \<and> status_code response = 200 \<and>
           json_body response = Inr (Some (Some task_info # others)) \<and>
           status task_info \<noteq> '''' \<and> status task_info \<noteq> ''PENDING'')"
    using poll_returned_record by blast
  have c4: "\<forall>k response r others.
        (\<forall>i<k. pending_at e taskUuid token (n + i)) \<and>
        fetch_tasks e taskUuid token (n + k) = Inr response \<and> status_code response = 200 \<and>
        json_body response = Inr (Some (Some r # others)) \<and>
        status r \<noteq> '''' \<and> status r \<noteq> ''PENDING'' \<longrightarrow>
        pollPaperlessTaskStatus e taskUuid token n tr =
          Some (tr @ concat (replicate k [FetchTasks taskUuid token, Sleep 5000])
                   @ [FetchTasks taskUuid token],
                Inr (Some r))"
    using poll_terminal_after_pending by blast
  show ?thesis using c1 c2 c3 c4 by (intro conjI)
qed

theorem poll_pending_sleeps_and_repeats_witness:
  "pollPaperlessTaskStatus
     (sample_env None (Inr (http_response 200 (JStr ''t-1'')))
        (pending_twice_then (sample_task ''SUCCESS'' None)))
     (JStr ''t-1'') ''tok'' 0 [] =
   pollPaperlessTaskStatus
     (sample_env None (Inr (http_response 200 (JStr ''t-1'')))
        (pending_twice_then (sample_task ''SUCCESS'' None)))
     (JStr ''t-1'') ''tok'' 2
     [FetchTasks (JStr ''t-1'') ''tok'', Sleep 5000, FetchTasks (JStr ''t-1'') ''tok'', Sleep 5000]
   \<and> pollPaperlessTaskStatus
     (sample_env None (Inr (http_response 200 (JStr ''t-1'')))
        (pending_twice_then (sample_task ''SUCCESS'' None)))
     (JStr ''t-1'') ''tok'' 3 [] = None
   \<and> pollPaperlessTaskStatus
     (sample_env None (Inr (http_response 200 (JStr ''t-1'')))
        (pending_twice_then (sample_task ''SUCCESS'' None)))
     (JStr ''t-1'') ''tok'' 0 [] =
     Some ([FetchTasks (JStr ''t-1'') ''tok'', Sleep 5000,
            FetchTasks (JStr ''t-1'') ''tok'', Sleep 5000,
            FetchTasks (JStr ''t-1'') ''tok''], Inr (Some (sample_task ''SUCCESS'' None)))
   \<and> (\<exists>m\<ge>0. \<exists>response others.
         fetch_tasks (sample_env None (Inr (http_response 200 (JStr ''t-1'')))
            (pending_twice_then (sample_task ''SUCCESS'' None))) (JStr ''t-1'') ''tok'' m
           = Inr response \<and> status_code response = 200 \<and>
         json_body response = Inr (Some (Some (sample_task ''SUCCESS'' None) # others)) \<and>
         status (sample_task ''SUCCESS'' None) \<noteq> '''' \<and>
         status (sample_task ''SUCCESS'' None) \<noteq> ''PENDING'')"
proof -
  let ?e = "sample_env None (Inr (http_response 200 (JStr ''t-1'')))
              (pending_twice_then (sample_task ''SUCCESS'' None))"
  let ?u = "JStr ''t-1''"
  let ?F = "FetchTasks ?u ''tok''"
  note T = poll_pending_sleeps_and_repeats[of ?e ?u "''tok''" 0 "[]" 3 "[]"]
  have p: "\<And>m. m \<noteq> 2 \<Longrightarrow> pending_at ?e ?u ''tok'' m"
    by (simp add: pending_at_def sample_env_def pending_twice_then_def tasks_answer_def
          http_response_def sample_task_def)
  have h1: "\<forall>i<2. pending_at ?e ?u ''tok'' (0 + i)" using p by simp
  have h2: "\<forall>i. pending_at ?e ?u ''tok'' (3 + i)" using p by simp
  have h3: "fetch_tasks ?e ?u ''tok'' (0 + 2) =
        Inr (http_response 200 (Some [Some (sample_task ''SUCCESS'' None)])) \<and>
      status_code (http_response 200 (Some [Some (sample_task ''SUCCESS'' None)])) = 200 \<and>
      json_body (http_response 200 (Some [Some (sample_task ''SUCCESS'' None)])) =
        Inr (Some (Some (sample_task ''SUCCESS'' None) # [])) \<and>
      status (sample_task ''SUCCESS'' None) \<noteq> '''' \<and>
      status (sample_task ''SUCCESS'' None) \<noteq> ''PENDING''"
    by (simp add: sample_env_def pending_twice_then_def tasks_answer_def http_response_def
          sample_task_def)
  have c1: "pollPaperlessTaskStatus ?e ?u ''tok'' 0 [] =
        pollPaperlessTaskStatus ?e ?u ''tok'' (0 + 2)
          ([] @ concat (replicate 2 [?F, Sleep 5000]))"
    using T h1 by blast
  have c1': "pollPaperlessTaskStatus ?e ?u ''tok'' 0 [] =
        pollPaperlessTaskStatus ?e ?u ''tok'' 2 [?F, Sleep 5000, ?F, Sleep 5000]"
    using c1 by (simp add: numeral_2_eq_2)
  have c2: "pollPaperlessTaskStatus ?e ?u ''tok'' 3 [] = None"
    using T h2 by blast
  have c3: "pollPaperlessTaskStatus ?e ?u ''tok'' 0 [] =
      Some ([] @ concat (replicate 2 [?F, Sleep 5000]) @ [?F],
            Inr (Some (sample_task ''SUCCESS'' None)))"
    using T h1 h3 by blast
  have c3': "pollPaperlessTaskStatus ?e ?u ''tok'' 0 [] =
      Some ([?F, Sleep 5000, ?F, Sleep 5000, ?F], Inr (Some (sample_task ''SUCCESS'' None)))"
    using c3 by (simp add: numeral_2_eq_2)
  have c4: "\<exists>m\<ge>0. \<exists>response others.
         fetch_tasks ?e ?u ''tok'' m = Inr response \<and> status_code response = 200 \<and>
         json_body response = Inr (Some (Some (sample_task ''SUCCESS'' None) # others)) \<and>
         status (sample_task ''SUCCESS'' None) \<noteq> '''' \<and>
         status (sample_task ''SUCCESS'' None) \<noteq> ''PENDING''"
    using T c3' by blast
  show ?thesis using c1' c2 c3' c4 by blast
qed

text \<open>
  Claim C8. When a status query raises a transport error or is answered with a non-2xx
  status, or is answered with status 200 and a body that does not parse as JSON or parses
  to the empty list, the poller returns \<^verbatim>\<open>null\<close> at once: the query just made is the last
  call it makes, whatever the number of earlier queries.
\<close>

theorem poll_null_on_transport_or_protocol_failure:
  assumes "(\<exists>err. fetch_tasks e taskUuid token n = Inl err)
     \<or> (\<exists>response. fetch_tasks e taskUuid token n = Inr response \<and>
          (\<not> ok response
           \<or> (status_code response = 200 \<and>
               ((\<exists>err. json_body response = Inl err)
                \<or> json_body response = Inr (Some [])))))"
  shows "pollPaperlessTaskStatus e taskUuid token n tr =
         Some (tr @ [FetchTasks taskUuid token], Inr None)"
  using assms
  apply (subst pollPaperlessTaskStatus.simps)
  apply (auto simp: Let_def split: sum.splits option.splits list.splits)
  done

theorem poll_null_on_transport_or_protocol_failure_witness:
  "pollPaperlessTaskStatus
     (sample_env None (Inr (http_response 200 (JStr ''t-1'')))
        (always (Inl (Error ''ECONNREFUSED''))))
     (JStr ''t-1'') ''tok'' 0 [] = Some ([FetchTasks (JStr ''t-1'') ''tok''], Inr None)
   \<and> pollPaperlessTaskStatus
     (sample_env None (Inr (http_response 200 (JStr ''t-1'')))
        (always (Inr (http_response 503 None))))
     (JStr ''t-1'') ''tok'' 4 [Sleep 5000] =
       Some ([Sleep 5000, FetchTasks (JStr ''t-1'') ''tok''], Inr None)
   \<and> pollPaperlessTaskStatus
     (sample_env None (Inr (http_response 200 (JStr ''t-1'')))
        (always (Inr (http_response 200 (Some [])))))
     (JStr ''t-1'') ''tok'' 0 [] = Some ([FetchTasks (JStr ''t-1'') ''tok''], Inr None)
   \<and> pollPaperlessTaskStatus
     (sample_env None (Inr (http_response 200 (JStr ''t-1'')))
        (always (Inr \<lparr>status_code = 200, statusText = ''OK'', arrayBuffer = Inr [],
                       json_body = Inl (Error ''Unexpected token'')\<rparr>)))
     (JStr ''t-1'') ''tok'' 0 [] = Some ([FetchTasks (JStr ''t-1'') ''tok''], Inr None)"
proof -
  let ?up = "Inr (http_response 200 (JStr ''t-1''))"
  let ?u = "JStr ''t-1''"
  have 1: "pollPaperlessTaskStatus (sample_env None ?up (always (Inl (Error ''ECONNREFUSED''))))
      ?u ''tok'' 0 [] = Some ([] @ [FetchTasks ?u ''tok''], Inr None)"
    by (rule poll_null_on_transport_or_protocol_failure)
       (simp add: sample_env_def always_def)
  have 2: "pollPaperlessTaskStatus (sample_env None ?up (always (Inr (http_response 503 None))))
      ?u ''tok'' 4 [Sleep 5000] = Some ([Sleep 5000] @ [FetchTasks ?u ''tok''], Inr None)"
    by (rule poll_null_on_transport_or_protocol_failure)
       (simp add: sample_env_def always_def http_response_def ok_def)
  have 3: "pollPaperlessTaskStatus
      (sample_env None ?up (always (Inr (http_response 200 (Some [])))))
      ?u ''tok'' 0 [] = Some ([] @ [FetchTasks ?u ''tok''], Inr None)"
    by (rule poll_null_on_transport_or_protocol_failure)
       (simp add: sample_env_def always_def http_response_def ok_def)
  have 4: "pollPaperlessTaskStatus
      (sample_env None ?up (always (Inr \<lparr>status_code = 200, statusText = ''OK'',
          arrayBuffer = Inr [], json_body = Inl (Error ''Unexpected token'')\<rparr>)))
      ?u ''tok'' 0 [] = Some ([] @ [FetchTasks ?u ''tok''], Inr None)"
    by (rule poll_null_on_transport_or_protocol_failure)
       (simp add: sample_env_def always_def ok_def)
  show ?thesis using 1 2 3 4 by simp
qed

section \<open>The ingestion workflow\<close>

lemma number_truthy_iff: "number_truthy N \<longleftrightarrow> N \<noteq> Finite 0"
  by (cases N) auto

lemma run_after_poll:
  assumes "source_url \<noteq> ''''"
      and "processAndIngestPDF e source_url (hoarder_id @ ''.pdf'') token = (tr1, Inr taskUuid)"
      and "truthy taskUuid" and "loose_eq_empty taskUuid = Inr False"
      and "pollPaperlessTaskStatus e taskUuid token 0 ([ExistsSync source_url] @ tr1) =
             Some (tr2, Inr (Some task_info))"
  shows "processDocumentWithPaperless e source_url hoarder_id token =
           Some (fst (afterPoll e token task_info tr2), Inr (snd (afterPoll e token task_info tr2)))"
  using assms
  by (simp add: processDocumentWithPaperless_def IGNORE_EXISTING_FILE_def split: prod.splits)

lemma ingest_trace:
  "processAndIngestPDF e pdfUrl fileName token = (tr, r) \<Longrightarrow>
   \<forall>ev\<in>set tr. \<not> is_download_or_extract ev \<and> \<not> is_poll ev"
  by (auto simp: processAndIngestPDF_def uploadDocument_def createFileObject_def Let_def
        is_download_or_extract_def is_poll_def
      split: if_splits option.splits sum.splits prod.splits)

lemma poll_trace:
  "pollPaperlessTaskStatus e u t n tr = Some (tr', r) \<Longrightarrow>
   \<exists>evs. tr' = tr @ evs \<and> (\<forall>ev\<in>set evs. ev = FetchTasks u t \<or> ev = Sleep 5000)"
proof (induction e u t n tr
        "(tr', r) :: event list \<times> (js_error + TaskResponse option)"
        rule: pollPaperlessTaskStatus.raw_induct[rotated 1, consumes 1])
  case (1 poll e u t n tr)
  show ?case
  proof (cases "keeps_polling e u t n")
    case False
    with 1(2) have "tr' = tr @ [FetchTasks u t]"
      by (auto simp: keeps_polling_def ok_def Let_def
               split: sum.splits option.splits list.splits if_splits)
    then show ?thesis by simp
  next
    case True
    with 1(2) have "poll e u t (Suc n) (tr @ [FetchTasks u t, Sleep 5000]) = Some (tr', r)
        \<or> poll e u t (Suc n) (tr @ [FetchTasks u t]) = Some (tr', r)"
      by (auto simp: keeps_polling_def ok_def Let_def
               split: sum.splits option.splits list.splits if_splits)
    then show ?thesis
    proof
      assume "poll e u t (Suc n) (tr @ [FetchTasks u t, Sleep 5000]) = Some (tr', r)"
      from 1(1)[OF this] obtain evs where
        "tr' = (tr @ [FetchTasks u t, Sleep 5000]) @ evs"
        "\<forall>ev\<in>set evs. ev = FetchTasks u t \<or> ev = Sleep 5000" by blast
      then have "tr' = tr @ ([FetchTasks u t, Sleep 5000] @ evs) \<and>
          (\<forall>ev\<in>set ([FetchTasks u t, Sleep 5000] @ evs). ev = FetchTasks u t \<or> ev = Sleep 5000)"
        by simp
      then show ?thesis by blast
    next
      assume "poll e u t (Suc n) (tr @ [FetchTasks u t]) = Some (tr', r)"
      from 1(1)[OF this] obtain evs where
        "tr' = (tr @ [FetchTasks u t]) @ evs"
        "\<forall>ev\<in>set evs. ev = FetchTasks u t \<or> ev = Sleep 5000" by blast
      then have "tr' = tr @ ([FetchTasks u t] @ evs) \<and>
          (\<forall>ev\<in>set ([FetchTasks u t] @ evs). ev = FetchTasks u t \<or> ev = Sleep 5000)"
        by simp
      then show ?thesis by blast
    qed
  qed
qed

lemma trace_before_download:
  assumes "processAndIngestPDF e source_url fileName token = (tr1, r)"
      and "pollPaperlessTaskStatus e u token n ([ExistsSync source_url] @ tr1) = Some (tr2, p)"
  shows "\<forall>ev\<in>set tr2. \<not> is_download_or_extract ev"
proof -
  from poll_trace[OF assms(2)] obtain evs where
    tr2: "tr2 = ([ExistsSync source_url] @ tr1) @ evs"
    and evs: "\<forall>ev\<in>set evs. ev = FetchTasks u token \<or> ev = Sleep 5000" by blast
  have "\<forall>ev\<in>set evs. \<not> is_download_or_extract ev"
    using evs by (auto simp: is_download_or_extract_def)
  moreover have "\<forall>ev\<in>set tr1. \<not> is_download_or_extract ev"
    using ingest_trace[OF assms(1)] by blast
  ultimately show ?thesis
    unfolding tr2 by (auto simp: is_download_or_extract_def)
qed

lemma afterPoll_failure_not_duplicate:
  assumes "status task_info = ''FAILURE''"
      and "case result task_info of None \<Rightarrow> True
           | Some msg \<Rightarrow> \<not> includes_str msg ''It is a duplicate''"
  shows "afterPoll e token task_info tr = (tr, failure (Some (Finite (id_num task_info))))"
  using assms
  by (simp add: afterPoll_def REPROCESS_EXISTING_DOCUMENTS_def split: option.splits)

lemma afterPoll_failure_duplicate:
  assumes "status task_info = ''FAILURE''"
      and "result task_info = Some msg"
      and "includes_str msg ''It is a duplicate''"
  shows "afterPoll e token task_info tr =
          (case extractDuplicateId msg of
             None \<Rightarrow> (tr, failure (Some (Finite (id_num task_info))))
           | Some duplicate_id \<Rightarrow>
               if number_truthy duplicate_id then downloadAndExtract e token duplicate_id tr
               else (tr, failure (Some (Finite (id_num task_info)))))"
proof -
  have "msg \<noteq> ''''" using assms(3) by (cases msg) auto
  then show ?thesis using assms
    by (simp add: afterPoll_def REPROCESS_EXISTING_DOCUMENTS_def Let_def)
qed

text \<open>
  Claim C9. For an empty \<open>source_url\<close> the workflow returns the all-null, empty result and
  calls no collaborator at all: no network call, no file written.
\<close>

theorem empty_source_url_is_noop:
  "processDocumentWithPaperless e '''' hoarder_id token =
     Some ([], Inr \<lparr>new_entry = False, uuid = None, content = ''''\<rparr>)"
  by (simp add: processDocumentWithPaperless_def failure_def)

text \<open>
  Claim C7. When the poll ends with a record of status \<^verbatim>\<open>FAILURE\<close> whose result message does
  not signal a duplicate (it is \<^verbatim>\<open>null\<close> or lacks the duplicate phrase), the workflow returns
  a failure result carrying the record's own identifier and empty text, and the trace of
  the run is the trace at the end of the poll: nothing is downloaded or extracted.
\<close>

theorem failure_without_duplicate_returns_task_id:
  assumes "source_url \<noteq> ''''"
      and "processAndIngestPDF e source_url (hoarder_id @ ''.pdf'') token = (tr1, Inr taskUuid)"
      and "truthy taskUuid" and "loose_eq_empty taskUuid = Inr False"
      and "pollPaperlessTaskStatus e taskUuid token 0 ([ExistsSync source_url] @ tr1) =
             Some (tr2, Inr (Some task_info))"
      and "status task_info = ''FAILURE''"
      and "case result task_info of None \<Rightarrow> True
           | Some msg \<Rightarrow> \<not> includes_str msg ''It is a duplicate''"
  shows "processDocumentWithPaperless e source_url hoarder_id token =
           Some (tr2, Inr \<lparr>new_entry = False, uuid = Some (Finite (id_num task_info)), content = ''''\<rparr>)
         \<and> (\<forall>ev\<in>set tr2. \<not> is_download_or_extract ev)"
proof -
  have "processDocumentWithPaperless e source_url hoarder_id token =
          Some (tr2, Inr (failure (Some (Finite (id_num task_info)))))"
    using run_after_poll[OF assms(1-5)] afterPoll_failure_not_duplicate[OF assms(6,7)]
    by simp
  moreover have "\<forall>ev\<in>set tr2. \<not> is_download_or_extract ev"
    using trace_before_download[OF assms(2) assms(5)] .
  ultimately show ?thesis by (simp add: failure_def)
qed

text \<open>
  Claim C10. When the poll ends with a record of status \<^verbatim>\<open>FAILURE\<close> whose result message
  signals a duplicate and the identifier extracted from it is 0, the workflow does not adopt
  0: it returns a failure result carrying the record's own identifier and empty text,
  without download or extraction, which is also what it returns when no identifier can be
  extracted.
\<close>

theorem duplicate_id_zero_is_not_adopted:
  assumes "source_url \<noteq> ''''"
      and "processAndIngestPDF e source_url (hoarder_id @ ''.pdf'') token = (tr1, Inr taskUuid)"
      and "truthy taskUuid" and "loose_eq_empty taskUuid = Inr False"
      and "pollPaperlessTaskStatus e taskUuid token 0 ([ExistsSync source_url] @ tr1) =
             Some (tr2, Inr (Some task_info))"
      and "status task_info = ''FAILURE''"
      and "result task_info = Some msg"
      and "includes_str msg ''It is a duplicate''"
      and "extractDuplicateId msg = Some (Finite 0) \<or> extractDuplicateId msg = None"
  shows "processDocumentWithPaperless e source_url hoarder_id token =
           Some (tr2, Inr \<lparr>new_entry = False, uuid = Some (Finite (id_num task_info)), content = ''''\<rparr>)
         \<and> (\<forall>ev\<in>set tr2. \<not> is_download_or_extract ev)"
proof -
  have "afterPoll e token task_info tr2 = (tr2, failure (Some (Finite (id_num task_info))))"
    using afterPoll_failure_duplicate[OF assms(6-8), of e token tr2] assms(9) by auto
  then have "processDocumentWithPaperless e source_url hoarder_id token =
          Some (tr2, Inr (failure (Some (Finite (id_num task_info)))))"
    using run_after_poll[OF assms(1-5)] by simp
  moreover have "\<forall>ev\<in>set tr2. \<not> is_download_or_extract ev"
    using trace_before_download[OF assms(2) assms(5)] .
  ultimately show ?thesis by (simp add: failure_def)
qed

subsection \<open>The sample collaborators, evaluated\<close>

lemma sample_ingest:
  "processAndIngestPDF (sample_env None (Inr (http_response code body)) tasks) url fname tok =
     ([ExistsSync ''originals'', MkdirSync ''originals'', FetchSource url,
       WriteFile (Join ''originals'' fname) [37, 80, 68, 70],
       ReadFile (Join ''originals'' fname),
       FetchPostDocument (Join ''originals'' fname) tok], Inr body)"
  by (simp add: processAndIngestPDF_def uploadDocument_def createFileObject_def sample_env_def
        http_response_def ok_def Let_def)

lemma sample_poll_terminal:
  assumes "status r \<noteq> ''''" and "status r \<noteq> ''PENDING''"
  shows "pollPaperlessTaskStatus (sample_env mk up (always (tasks_answer r))) u t n tr =
           Some (tr @ [FetchTasks u t], Inr (Some r))"
  using assms
  by (subst pollPaperlessTaskStatus.simps)
     (simp add: sample_env_def always_def tasks_answer_def http_response_def ok_def)

lemma sample_download:
  "downloadPaperlessDocument (sample_env None up tasks) d original tok =
     ([ExistsSync ''pdf-a'', MkdirSync ''pdf-a'', FetchDownload d original tok,
       WriteFile (JoinDoc ''pdf-a'' d) [37, 80, 68, 70]], Inr (Some (JoinDoc ''pdf-a'' d)))"
  by (simp add: downloadPaperlessDocument_def sample_env_def http_response_def ok_def Let_def)

lemma sample_readPdfText: "readPdfText (sample_env mk up tasks) p = Inr ''Invoice 2024''"
  by (simp add: sample_env_def)

subsection \<open>Instances of the workflow theorems\<close>

theorem empty_source_url_is_noop_witness:
  "processDocumentWithPaperless
     (sample_env None (Inr (http_response 200 (JStr ''t-1'')))
        (always (tasks_answer (sample_task ''SUCCESS'' None))))
     '''' ''h1'' ''tok'' =
   Some ([], Inr \<lparr>new_entry = False, uuid = None, content = ''''\<rparr>)"
  by (rule empty_source_url_is_noop)

theorem failure_without_duplicate_returns_task_id_witness:
  "processDocumentWithPaperless
     (sample_env None (Inr (http_response 200 (JStr ''t-1'')))
        (always (tasks_answer (sample_task ''FAILURE'' (Some ''File type not supported'')))))
     ''http://host/a.pdf'' ''h1'' ''tok'' =
   Some ([ExistsSync ''http://host/a.pdf'',
          ExistsSync ''originals'', MkdirSync ''originals'', FetchSource ''http://host/a.pdf'',
          WriteFile (Join ''originals'' ''h1.pdf'') [37, 80, 68, 70],
          ReadFile (Join ''originals'' ''h1.pdf''),
          FetchPostDocument (Join ''originals'' ''h1.pdf'') ''tok'',
          FetchTasks (JStr ''t-1'') ''tok''],
         Inr \<lparr>new_entry = False, uuid = Some (Finite 12), content = ''''\<rparr>)"
proof -
  let ?t = "sample_task ''FAILURE'' (Some ''File type not supported'')"
  let ?e = "sample_env None (Inr (http_response 200 (JStr ''t-1''))) (always (tasks_answer ?t))"
  have 1: "''http://host/a.pdf'' \<noteq> ''''" by simp
  have 2: "processAndIngestPDF ?e ''http://host/a.pdf'' (''h1'' @ ''.pdf'') ''tok'' =
      ([ExistsSync ''originals'', MkdirSync ''originals'', FetchSource ''http://host/a.pdf'',
        WriteFile (Join ''originals'' (''h1'' @ ''.pdf'')) [37, 80, 68, 70],
        ReadFile (Join ''originals'' (''h1'' @ ''.pdf'')),
        FetchPostDocument (Join ''originals'' (''h1'' @ ''.pdf'')) ''tok''], Inr (JStr ''t-1''))"
    by (rule sample_ingest)
  have 3: "truthy (JStr ''t-1'')" and 4: "loose_eq_empty (JStr ''t-1'') = Inr False" by simp_all
  have 5: "status ?t = ''FAILURE''" by (simp add: sample_task_def)
  have 6: "case result ?t of None \<Rightarrow> True
           | Some msg \<Rightarrow> \<not> includes_str msg ''It is a duplicate''"
    by (simp add: sample_task_def)
  have 7: "status ?t \<noteq> ''''" "status ?t \<noteq> ''PENDING''" by (simp_all add: sample_task_def)
  note p = sample_poll_terminal[OF 7, of None "Inr (http_response 200 (JStr ''t-1''))"
      "JStr ''t-1''" "''tok''" 0]
  show ?thesis
    using failure_without_duplicate_returns_task_id[OF 1 2 3 4 p 5 6]
    by (simp add: sample_task_def)
qed

theorem duplicate_id_zero_is_not_adopted_witness:
  "extractDuplicateId ''Not consumed: h1.pdf: It is a duplicate of old.pdf (#0)'' = Some (Finite 0)
   \<and> processDocumentWithPaperless
     (sample_env None (Inr (http_response 200 (JStr ''t-1'')))
        (always (tasks_answer (sample_task ''FAILURE''
           (Some ''Not consumed: h1.pdf: It is a duplicate of old.pdf (#0)'')))))
     ''http://host/a.pdf'' ''h1'' ''tok'' =
   Some ([ExistsSync ''http://host/a.pdf'',
          ExistsSync ''originals'', MkdirSync ''originals'', FetchSource ''http://host/a.pdf'',
          WriteFile (Join ''originals'' ''h1.pdf'') [37, 80, 68, 70],
          ReadFile (Join ''originals'' ''h1.pdf''),
          FetchPostDocument (Join ''originals'' ''h1.pdf'') ''tok'',
          FetchTasks (JStr ''t-1'') ''tok''],
         Inr \<lparr>new_entry = False, uuid = Some (Finite 12), content = ''''\<rparr>)"
proof -
  let ?m = "''Not consumed: h1.pdf: It is a duplicate of old.pdf (#0)''"
  let ?t = "sample_task ''FAILURE'' (Some ?m)"
  let ?e = "sample_env None (Inr (http_response 200 (JStr ''t-1''))) (always (tasks_answer ?t))"
  have 1: "''http://host/a.pdf'' \<noteq> ''''" by simp
  have 2: "processAndIngestPDF ?e ''http://host/a.pdf'' (''h1'' @ ''.pdf'') ''tok'' =
      ([ExistsSync ''originals'', MkdirSync ''originals'', FetchSource ''http://host/a.pdf'',
        WriteFile (Join ''originals'' (''h1'' @ ''.pdf'')) [37, 80, 68, 70],
        ReadFile (Join ''originals'' (''h1'' @ ''.pdf'')),
        FetchPostDocument (Join ''originals'' (''h1'' @ ''.pdf'')) ''tok''], Inr (JStr ''t-1''))"
    by (rule sample_ingest)
  have 3: "truthy (JStr ''t-1'')" and 4: "loose_eq_empty (JStr ''t-1'') = Inr False" by simp_all
  have 5: "status ?t = ''FAILURE''" by (simp add: sample_task_def)
  have 6: "result ?t = Some ?m" by (simp add: sample_task_def)
  have 7: "includes_str ?m ''It is a duplicate''" by code_simp
  have 8: "extractDuplicateId ?m = Some (Finite 0)" by code_simp
  then have 9: "extractDuplicateId ?m = Some (Finite 0) \<or> extractDuplicateId ?m = None" by simp
  have 10: "status ?t \<noteq> ''''" "status ?t \<noteq> ''PENDING''" by (simp_all add: sample_task_def)
  note p = sample_poll_terminal[OF 10, of None "Inr (http_response 200 (JStr ''t-1''))"
      "JStr ''t-1''" "''tok''" 0]
  show ?thesis
    using duplicate_id_zero_is_not_adopted[OF 1 2 3 4 p 5 6 7 9] 8
    by (simp add: sample_task_def)
qed

subsection \<open>The shape of every returned result\<close>







subsection \<open>The older copy returns the extractor's text unchecked\<close>

text \<open>
  Claim C2, evaluated where the code departs from it. In the older copy of the workflow
  the text that the extractor returns goes into the result as it is. With collaborators
  that all succeed and an extractor that yields the empty text, the result is a new entry
  with an empty text.
\<close>

theorem legacy_returns_new_entry_with_empty_text:
  "processDocumentWithPaperless_legacy (sample_legacy_env '''')
     ''http://host/a.pdf'' ''h1'' ''tok'' =
   Some ([ExistsSync ''http://host/a.pdf'', FetchSource ''http://host/a.pdf'',
          WriteFile (File ''h1.pdf'') [37, 80, 68, 70],
          ReadFile (File ''h1.pdf''),
          FetchPostDocument (File ''h1.pdf'') ''tok'',
          FetchTasks (JStr ''t-1'') ''tok'',
          FetchDownloadLegacy ''t-1'' False,
          ExistsSync ''/tmp/pdf_temp'', MkdirSync ''/tmp/pdf_temp'',
          WriteFile (Join ''/tmp/pdf_temp'' ''t-1.pdf'') [37, 80, 68, 70],
          ReadPdfText (Join ''/tmp/pdf_temp'' ''t-1.pdf'')],
         Inr \<lparr>new_entry = True, uuid = JStr ''t-1'', content = ''''\<rparr>)"
proof -
  let ?e = "sample_legacy_env ''''"
  have up: "postFileToPaperless ?e ''http://host/a.pdf'' ''h1.pdf'' ''tok'' =
      ([FetchSource ''http://host/a.pdf'', WriteFile (File ''h1.pdf'') [37, 80, 68, 70],
        ReadFile (File ''h1.pdf''), FetchPostDocument (File ''h1.pdf'') ''tok''],
       JStr ''t-1'')"
    by (simp add: postFileToPaperless_def IGNORE_EXISTING_FILE_def processAndIngestPDF_legacy_def
          uploadDocument_def createFileObject_def sample_legacy_env_def http_response_def
          ok_def Let_def)
  have poll: "pollPaperlessTaskStatus_legacy ?e (JStr ''t-1'') ''tok'' tr =
      Some (tr @ [FetchTasks (JStr ''t-1'') ''tok''], Inr (Some (sample_task ''SUCCESS'' None)))"
    for tr
    unfolding pollPaperlessTaskStatus_legacy_def
    by (subst pollLoop_legacy.simps)
       (simp add: sample_legacy_env_def tasks_answer_def http_response_def ok_def
          sample_task_def Let_def)
  have dl: "downloadPaperlessDocument_legacy ?e ''t-1'' False =
      ([FetchDownloadLegacy ''t-1'' False], Some [37, 80, 68, 70])"
    by (simp add: downloadPaperlessDocument_legacy_def sample_legacy_env_def http_response_def
          ok_def)
  have t: "status (sample_task ''SUCCESS'' None) \<noteq> ''FAILURE''"
      "task_id (sample_task ''SUCCESS'' None) = ''t-1''"
    by (simp_all add: sample_task_def)
  have fs: "existsSync ?e p = False" "mkdirSync ?e p = None" "writeFile ?e q b = None"
      "readPdfText ?e q = Inr ''''" "tmpdir ?e = ''/tmp''" for p q b
    by (simp_all add: sample_legacy_env_def)
  show ?thesis
    by (simp add: processDocumentWithPaperless_legacy_def up poll dl t fs Let_def)
qed

theorem legacy_returns_new_entry_with_empty_text_witness:
  "processDocumentWithPaperless_legacy (sample_legacy_env '''')
     ''http://host/a.pdf'' ''h1'' ''tok'' \<noteq> None
   \<and> new_entry \<lparr>new_entry = True, uuid = JStr ''t-1'', content = ''''\<rparr>
   \<and> content \<lparr>new_entry = True, uuid = JStr ''t-1'', content = ''''\<rparr> = ''''"
  using legacy_returns_new_entry_with_empty_text by simp

subsection \<open>Duplicates that are reprocessed\<close>

lemma download_attempted:
  assumes "existsSync e ''pdf-a'' \<or> mkdirSync e ''pdf-a'' = None"
  shows "FetchDownload d original token \<in> set (fst (downloadPaperlessDocument e d original token))"
  using assms
  by (auto simp: downloadPaperlessDocument_def Let_def
      split: sum.splits option.splits if_splits)

lemma downloadAndExtract_trace:
  "\<exists>tr3 r. downloadAndExtract e token d tr =
      (tr @ fst (downloadPaperlessDocument e d False token) @ tr3, r) \<and> uuid r = Some d"
  by (cases "downloadPaperlessDocument e d False token")
     (auto simp: downloadAndExtract_def failure_def Let_def
      split: sum.splits option.splits)

lemma downloadAndExtract_success:
  assumes "snd (downloadPaperlessDocument e d False token) = Inr (Some file)"
      and "readPdfText e file = Inr text" and "text \<noteq> ''''"
  shows "downloadAndExtract e token d tr =
      (tr @ fst (downloadPaperlessDocument e d False token) @ [ReadPdfText file],
       \<lparr>new_entry = True, uuid = Some d, content = text\<rparr>)"
  using assms
  by (cases "downloadPaperlessDocument e d False token")
     (simp add: downloadAndExtract_def)

text \<open>
  Claim C3, amended. When the poll ends with a record of status \<^verbatim>\<open>FAILURE\<close> whose result
  message contains the duplicate phrase and the identifier \<open>N\<close> extracted from it is not 0,
  the workflow (whose reprocess policy is the constant \<^verbatim>\<open>true\<close>) adopts \<open>N\<close>: the run goes
  on, right after the poll, with the calls of the archival download of document \<open>N\<close>, and
  every result it then returns carries \<open>N\<close>. When that download yields a file and the
  extractor yields a non-empty text for it, the result is new, with identifier \<open>N\<close> and
  that text.
\<close>

theorem duplicate_id_adopted_and_reprocessed:
  assumes "source_url \<noteq> ''''"
      and "processAndIngestPDF e source_url (hoarder_id @ ''.pdf'') token = (tr1, Inr taskUuid)"
      and "truthy taskUuid" and "loose_eq_empty taskUuid = Inr False"
      and "pollPaperlessTaskStatus e taskUuid token 0 ([ExistsSync source_url] @ tr1) =
             Some (tr2, Inr (Some task_info))"
      and "status task_info = ''FAILURE''"
      and "result task_info = Some msg"
      and "includes_str msg ''It is a duplicate''"
      and "extractDuplicateId msg = Some N"
      and "N \<noteq> Finite 0"
  shows "REPROCESS_EXISTING_DOCUMENTS
     \<and> (\<exists>tr3 r. processDocumentWithPaperless e source_url hoarder_id token =
            Some (tr2 @ fst (downloadPaperlessDocument e N False token) @ tr3, Inr r)
          \<and> uuid r = Some N)
     \<and> (existsSync e ''pdf-a'' \<or> mkdirSync e ''pdf-a'' = None \<longrightarrow>
          FetchDownload N False token \<in> set (fst (downloadPaperlessDocument e N False token)))
     \<and> (\<forall>file text.
          snd (downloadPaperlessDocument e N False token) = Inr (Some file) \<and>
          readPdfText e file = Inr text \<and> text \<noteq> '''' \<longrightarrow>
          processDocumentWithPaperless e source_url hoarder_id token =
            Some (tr2 @ fst (downloadPaperlessDocument e N False token) @ [ReadPdfText file],
                  Inr \<lparr>new_entry = True, uuid = Some N, content = text\<rparr>))"
proof -
  have ap: "afterPoll e token task_info tr2 = downloadAndExtract e token N tr2"
    using afterPoll_failure_duplicate[OF assms(6-8), of e token tr2] assms(9,10)
    by (simp add: number_truthy_iff)
  have run: "processDocumentWithPaperless e source_url hoarder_id token =
      Some (fst (downloadAndExtract e token N tr2), Inr (snd (downloadAndExtract e token N tr2)))"
    using run_after_poll[OF assms(1-5)] ap by simp
  have a: "\<exists>tr3 r. processDocumentWithPaperless e source_url hoarder_id token =
            Some (tr2 @ fst (downloadPaperlessDocument e N False token) @ tr3, Inr r)
          \<and> uuid r = Some N"
    using downloadAndExtract_trace[of e token N tr2] run by auto
  have b: "existsSync e ''pdf-a'' \<or> mkdirSync e ''pdf-a'' = None \<longrightarrow>
          FetchDownload N False token \<in> set (fst (downloadPaperlessDocument e N False token))"
    using download_attempted by blast
  have c: "\<forall>file text.
          snd (downloadPaperlessDocument e N False token) = Inr (Some file) \<and>
          readPdfText e file = Inr text \<and> text \<noteq> '''' \<longrightarrow>
          processDocumentWithPaperless e source_url hoarder_id token =
            Some (tr2 @ fst (downloadPaperlessDocument e N False token) @ [ReadPdfText file],
                  Inr \<lparr>new_entry = True, uuid = Some N, content = text\<rparr>)"
    using run downloadAndExtract_success[of e N token] by auto
  show ?thesis using a b c by (simp add: REPROCESS_EXISTING_DOCUMENTS_def)
qed

theorem duplicate_id_adopted_and_reprocessed_witness:
  "extractDuplicateId ''Not consumed: h1.pdf: It is a duplicate of old.pdf (#917)'' = Some (Finite 917)
   \<and> processDocumentWithPaperless
     (sample_env None (Inr (http_response 200 (JStr ''t-1'')))
        (always (tasks_answer (sample_task ''FAILURE''
           (Some ''Not consumed: h1.pdf: It is a duplicate of old.pdf (#917)'')))))
     ''http://host/a.pdf'' ''h1'' ''tok'' =
   Some ([ExistsSync ''http://host/a.pdf'',
          ExistsSync ''originals'', MkdirSync ''originals'', FetchSource ''http://host/a.pdf'',
          WriteFile (Join ''originals'' ''h1.pdf'') [37, 80, 68, 70],
          ReadFile (Join ''originals'' ''h1.pdf''),
          FetchPostDocument (Join ''originals'' ''h1.pdf'') ''tok'',
          FetchTasks (JStr ''t-1'') ''tok'',
          ExistsSync ''pdf-a'', MkdirSync ''pdf-a'', FetchDownload (Finite 917) False ''tok'',
          WriteFile (JoinDoc ''pdf-a'' (Finite 917)) [37, 80, 68, 70],
          ReadPdfText (JoinDoc ''pdf-a'' (Finite 917))],
         Inr \<lparr>new_entry = True, uuid = Some (Finite 917), content = ''Invoice 2024''\<rparr>)"
proof -
  let ?m = "''Not consumed: h1.pdf: It is a duplicate of old.pdf (#917)''"
  let ?t = "sample_task ''FAILURE'' (Some ?m)"
  let ?up = "Inr (http_response 200 (JStr ''t-1''))"
  let ?e = "sample_env None ?up (always (tasks_answer ?t))"
  have 1: "''http://host/a.pdf'' \<noteq> ''''" by simp
  have 2: "processAndIngestPDF ?e ''http://host/a.pdf'' (''h1'' @ ''.pdf'') ''tok'' =
      ([ExistsSync ''originals'', MkdirSync ''originals'', FetchSource ''http://host/a.pdf'',
        WriteFile (Join ''originals'' (''h1'' @ ''.pdf'')) [37, 80, 68, 70],
        ReadFile (Join ''originals'' (''h1'' @ ''.pdf'')),
        FetchPostDocument (Join ''originals'' (''h1'' @ ''.pdf'')) ''tok''], Inr (JStr ''t-1''))"
    by (rule sample_ingest)
  have 3: "truthy (JStr ''t-1'')" and 4: "loose_eq_empty (JStr ''t-1'') = Inr False" by simp_all
  have 5: "status ?t = ''FAILURE''" by (simp add: sample_task_def)
  have 6: "result ?t = Some ?m" by (simp add: sample_task_def)
  have 7: "includes_str ?m ''It is a duplicate''" by code_simp
  have 8: "extractDuplicateId ?m = Some (Finite 917)" by code_simp
  have 9: "Finite 917 \<noteq> Finite 0" by simp
  have 10: "status ?t \<noteq> ''''" "status ?t \<noteq> ''PENDING''" by (simp_all add: sample_task_def)
  note p = sample_poll_terminal[OF 10, of None ?up "JStr ''t-1''" "''tok''" 0]
  note T = duplicate_id_adopted_and_reprocessed[OF 1 2 3 4 p 5 6 7 8 9]
  have d: "snd (downloadPaperlessDocument ?e (Finite 917) False ''tok'') = Inr (Some (JoinDoc ''pdf-a'' (Finite 917)))
      \<and> readPdfText ?e (JoinDoc ''pdf-a'' (Finite 917)) = Inr ''Invoice 2024''
      \<and> ''Invoice 2024'' \<noteq> ''''"
    by (simp add: sample_download sample_readPdfText)
  note R = T[THEN conjunct2, THEN conjunct2, THEN conjunct2, rule_format, OF d]
  show ?thesis using R 8 by (simp add: sample_download)
qed

text \<open>
  The claim as first stated (any extractable identifier \<open>N\<close>) fails for \<open>N = 0\<close>: the
  message signals a duplicate, the identifier 0 is extracted, the download of document 0
  and the extraction would succeed with a non-empty text, and yet the workflow returns a
  failure result with the record's own identifier 12, right after the poll.
\<close>

theorem duplicate_id_zero_counterexample:
  "status (sample_task ''FAILURE''
      (Some ''Not consumed: h1.pdf: It is a duplicate of old.pdf (#0)'')) = ''FAILURE''
   \<and> includes_str ''Not consumed: h1.pdf: It is a duplicate of old.pdf (#0)''
        ''It is a duplicate''
   \<and> extractDuplicateId ''Not consumed: h1.pdf: It is a duplicate of old.pdf (#0)'' = Some (Finite 0)
   \<and> REPROCESS_EXISTING_DOCUMENTS
   \<and> snd (downloadPaperlessDocument
       (sample_env None (Inr (http_response 200 (JStr ''t-1'')))
          (always (tasks_answer (sample_task ''FAILURE''
             (Some ''Not consumed: h1.pdf: It is a duplicate of old.pdf (#0)'')))))
       (Finite 0) False ''tok'') = Inr (Some (JoinDoc ''pdf-a'' (Finite 0)))
   \<and> readPdfText
       (sample_env None (Inr (http_response 200 (JStr ''t-1'')))
          (always (tasks_answer (sample_task ''FAILURE''
             (Some ''Not consumed: h1.pdf: It is a duplicate of old.pdf (#0)'')))))
       (JoinDoc ''pdf-a'' (Finite 0)) = Inr ''Invoice 2024''
   \<and> processDocumentWithPaperless
       (sample_env None (Inr (http_response 200 (JStr ''t-1'')))
          (always (tasks_answer (sample_task ''FAILURE''
             (Some ''Not consumed: h1.pdf: It is a duplicate of old.pdf (#0)'')))))
       ''http://host/a.pdf'' ''h1'' ''tok'' =
     Some ([ExistsSync ''http://host/a.pdf'',
            ExistsSync ''originals'', MkdirSync ''originals'', FetchSource ''http://host/a.pdf'',
            WriteFile (Join ''originals'' ''h1.pdf'') [37, 80, 68, 70],
            ReadFile (Join ''originals'' ''h1.pdf''),
            FetchPostDocument (Join ''originals'' ''h1.pdf'') ''tok'',
            FetchTasks (JStr ''t-1'') ''tok''],
           Inr \<lparr>new_entry = False, uuid = Some (Finite 12), content = ''''\<rparr>)"
proof -
  let ?m = "''Not consumed: h1.pdf: It is a duplicate of old.pdf (#0)''"
  let ?t = "sample_task ''FAILURE'' (Some ?m)"
  have 1: "status ?t \<noteq> ''''" "status ?t \<noteq> ''PENDING''" by (simp_all add: sample_task_def)
  have 2: "status ?t = ''FAILURE''" "id_num ?t = 12" "result ?t = Some ?m"
    by (simp_all add: sample_task_def)
  have 3: "includes_str ?m ''It is a duplicate''" by code_simp
  have 4: "extractDuplicateId ?m = Some (Finite 0)" by code_simp
  let ?up = "Inr (http_response 200 (JStr ''t-1''))"
  let ?e = "sample_env None ?up (always (tasks_answer ?t))"
  have 5: "''http://host/a.pdf'' \<noteq> ''''" by simp
  have 6: "processAndIngestPDF ?e ''http://host/a.pdf'' (''h1'' @ ''.pdf'') ''tok'' =
      ([ExistsSync ''originals'', MkdirSync ''originals'', FetchSource ''http://host/a.pdf'',
        WriteFile (Join ''originals'' (''h1'' @ ''.pdf'')) [37, 80, 68, 70],
        ReadFile (Join ''originals'' (''h1'' @ ''.pdf'')),
        FetchPostDocument (Join ''originals'' (''h1'' @ ''.pdf'')) ''tok''], Inr (JStr ''t-1''))"
    by (rule sample_ingest)
  have 7: "truthy (JStr ''t-1'')" and 8: "loose_eq_empty (JStr ''t-1'') = Inr False" by simp_all
  note p = sample_poll_terminal[OF 1, of None ?up "JStr ''t-1''" "''tok''" 0]
  have ap: "\<And>tr. afterPoll ?e ''tok'' ?t tr = (tr, failure (Some (Finite 12)))"
    using afterPoll_failure_duplicate[OF 2(1) 2(3) 3, of ?e "''tok''"] 4 2(2) by simp
  have run: "processDocumentWithPaperless ?e ''http://host/a.pdf'' ''h1'' ''tok'' =
     Some ([ExistsSync ''http://host/a.pdf'',
            ExistsSync ''originals'', MkdirSync ''originals'', FetchSource ''http://host/a.pdf'',
            WriteFile (Join ''originals'' ''h1.pdf'') [37, 80, 68, 70],
            ReadFile (Join ''originals'' ''h1.pdf''),
            FetchPostDocument (Join ''originals'' ''h1.pdf'') ''tok'',
            FetchTasks (JStr ''t-1'') ''tok''],
           Inr \<lparr>new_entry = False, uuid = Some (Finite 12), content = ''''\<rparr>)"
    using run_after_poll[OF 5 6 7 8 p] by (simp add: ap failure_def)
  have dl: "snd (downloadPaperlessDocument ?e (Finite 0) False ''tok'') = Inr (Some (JoinDoc ''pdf-a'' (Finite 0)))"
    by (simp add: sample_download)
  have rd: "readPdfText ?e (JoinDoc ''pdf-a'' (Finite 0)) = Inr ''Invoice 2024''"
    by (rule sample_readPdfText)
  show ?thesis
    using 2(1) 3 4 run dl rd by (simp add: REPROCESS_EXISTING_DOCUMENTS_def)
qed

subsection \<open>Exceptions and termination\<close>














subsection \<open>Upload answered with an error status\<close>

lemma upload_null_or_empty_id_stops_before_poll:
  assumes "source_url \<noteq> ''''"
      and "processAndIngestPDF e source_url (hoarder_id @ ''.pdf'') token = (tr1, Inr u)"
      and "\<not> truthy u \<or> loose_eq_empty u = Inr True"
  shows "processDocumentWithPaperless e source_url hoarder_id token =
           Some ([ExistsSync source_url] @ tr1,
                 Inr \<lparr>new_entry = False, uuid = None, content = ''''\<rparr>)
         \<and> (\<forall>ev\<in>set ([ExistsSync source_url] @ tr1). \<not> is_poll ev)"
  using assms ingest_trace[OF assms(2)]
  by (auto simp: processDocumentWithPaperless_def IGNORE_EXISTING_FILE_def failure_def
        is_poll_def)

lemma uploadDocument_network_error:
  "fetch_post_document e fileName token = Inl err \<Longrightarrow>
   snd (uploadDocument e fileName token) = JNull"
  by (simp add: uploadDocument_def createFileObject_def split: sum.splits)

text \<open>
  Claim C4, evaluated where the code departs from it. The upload endpoint answers with
  status 400 and a JSON object describing the error. \<^verbatim>\<open>uploadDocument\<close> returns that
  object; it is truthy and not loosely equal to the empty string, so the workflow goes on
  to query the task endpoint with it. With a task endpoint that finds no such task the
  result is the failure result, but only after the poll; with one that answers with a
  finished record the workflow returns a new entry.
\<close>

theorem upload_error_status_still_polls:
  "\<not> ok (http_response 400 (JObj [(''document'', JArr [JStr ''File type not supported''])]))
   \<and> processDocumentWithPaperless
     (sample_env None
        (Inr (http_response 400 (JObj [(''document'', JArr [JStr ''File type not supported''])])))
        (always (Inr (http_response 200 (Some [])))))
     ''http://host/a.pdf'' ''h1'' ''tok'' =
   Some ([ExistsSync ''http://host/a.pdf'',
          ExistsSync ''originals'', MkdirSync ''originals'', FetchSource ''http://host/a.pdf'',
          WriteFile (Join ''originals'' ''h1.pdf'') [37, 80, 68, 70],
          ReadFile (Join ''originals'' ''h1.pdf''),
          FetchPostDocument (Join ''originals'' ''h1.pdf'') ''tok'',
          FetchTasks (JObj [(''document'', JArr [JStr ''File type not supported''])]) ''tok''],
         Inr \<lparr>new_entry = False, uuid = None, content = ''''\<rparr>)
   \<and> processDocumentWithPaperless
     (sample_env None
        (Inr (http_response 400 (JObj [(''document'', JArr [JStr ''File type not supported''])])))
        (always (tasks_answer (sample_task ''SUCCESS'' None))))
     ''http://host/a.pdf'' ''h1'' ''tok'' =
   Some ([ExistsSync ''http://host/a.pdf'',
          ExistsSync ''originals'', MkdirSync ''originals'', FetchSource ''http://host/a.pdf'',
          WriteFile (Join ''originals'' ''h1.pdf'') [37, 80, 68, 70],
          ReadFile (Join ''originals'' ''h1.pdf''),
          FetchPostDocument (Join ''originals'' ''h1.pdf'') ''tok'',
          FetchTasks (JObj [(''document'', JArr [JStr ''File type not supported''])]) ''tok'',
          ExistsSync ''pdf-a'', MkdirSync ''pdf-a'', FetchDownload (Finite 12) False ''tok'',
          WriteFile (JoinDoc ''pdf-a'' (Finite 12)) [37, 80, 68, 70],
          ReadPdfText (JoinDoc ''pdf-a'' (Finite 12))],
         Inr \<lparr>new_entry = True, uuid = Some (Finite 12), content = ''Invoice 2024''\<rparr>)"
proof -
  let ?body = "JObj [(''document'', JArr [JStr ''File type not supported''])]"
  let ?up = "Inr (http_response 400 ?body)"
  have 0: "\<not> ok (http_response 400 ?body)" by (simp add: ok_def http_response_def)
  have p: "pollPaperlessTaskStatus (sample_env None ?up (always (Inr (http_response 200 (Some [])))))
      ?body ''tok'' 0 tr = Some (tr @ [FetchTasks ?body ''tok''], Inr None)" for tr
    by (subst pollPaperlessTaskStatus.simps)
       (simp add: sample_env_def always_def http_response_def ok_def)
  have 1: "processDocumentWithPaperless
     (sample_env None ?up (always (Inr (http_response 200 (Some [])))))
     ''http://host/a.pdf'' ''h1'' ''tok'' =
   Some ([ExistsSync ''http://host/a.pdf'',
          ExistsSync ''originals'', MkdirSync ''originals'', FetchSource ''http://host/a.pdf'',
          WriteFile (Join ''originals'' ''h1.pdf'') [37, 80, 68, 70],
          ReadFile (Join ''originals'' ''h1.pdf''),
          FetchPostDocument (Join ''originals'' ''h1.pdf'') ''tok'',
          FetchTasks ?body ''tok''],
         Inr \<lparr>new_entry = False, uuid = None, content = ''''\<rparr>)"
    by (simp add: processDocumentWithPaperless_def IGNORE_EXISTING_FILE_def sample_ingest p
          failure_def Let_def)
  let ?t = "sample_task ''SUCCESS'' None"
  have s: "status ?t \<noteq> ''''" "status ?t \<noteq> ''PENDING''" by (simp_all add: sample_task_def)
  have f: "status ?t \<noteq> ''FAILURE''" by (simp add: sample_task_def)
  have i: "id_num ?t = 12" by (simp add: sample_task_def)
  have 2: "processDocumentWithPaperless
     (sample_env None ?up (always (tasks_answer ?t)))
     ''http://host/a.pdf'' ''h1'' ''tok'' =
   Some ([ExistsSync ''http://host/a.pdf'',
          ExistsSync ''originals'', MkdirSync ''originals'', FetchSource ''http://host/a.pdf'',
          WriteFile (Join ''originals'' ''h1.pdf'') [37, 80, 68, 70],
          ReadFile (Join ''originals'' ''h1.pdf''),
          FetchPostDocument (Join ''originals'' ''h1.pdf'') ''tok'',
          FetchTasks ?body ''tok'',
          ExistsSync ''pdf-a'', MkdirSync ''pdf-a'', FetchDownload (Finite 12) False ''tok'',
          WriteFile (JoinDoc ''pdf-a'' (Finite 12)) [37, 80, 68, 70],
          ReadPdfText (JoinDoc ''pdf-a'' (Finite 12))],
         Inr \<lparr>new_entry = True, uuid = Some (Finite 12), content = ''Invoice 2024''\<rparr>)"
    by (simp add: processDocumentWithPaperless_def IGNORE_EXISTING_FILE_def sample_ingest
          sample_poll_terminal[OF s] afterPoll_def f i downloadAndExtract_def sample_download
          sample_readPdfText Let_def)
  show ?thesis using 0 1 2 by simp
qed

theorem upload_error_status_still_polls_witness:
  "processDocumentWithPaperless
     (sample_env None
        (Inr (http_response 400 (JObj [(''document'', JArr [JStr ''File type not supported''])])))
        (always (Inr (http_response 200 (Some [])))))
     ''http://host/a.pdf'' ''h1'' ''tok'' \<noteq>
   Some ([ExistsSync ''http://host/a.pdf'',
          ExistsSync ''originals'', MkdirSync ''originals'', FetchSource ''http://host/a.pdf'',
          WriteFile (Join ''originals'' ''h1.pdf'') [37, 80, 68, 70],
          ReadFile (Join ''originals'' ''h1.pdf''),
          FetchPostDocument (Join ''originals'' ''h1.pdf'') ''tok''],
         Inr \<lparr>new_entry = False, uuid = None, content = ''''\<rparr>)"
  using upload_error_status_still_polls by simp

end
